theory Spec2Isabelle
  imports Complex_Main "HOL-Library.AList"
begin

section \<open>Values, errors and the Python string operations used by av1.py\<close>

text \<open>
  A cell of a pandas DataFrame as av1.py meets it: the null marker, a number
  (pandas compares and hashes 1 and 1.0 alike, so one numeric constructor
  serves both) or a Python string.  A string is the list of its code points;
  every character of the program's literals lies below 256.
\<close>

datatype cell = NaN | Num real | Str string

text \<open>The exceptions that the statements of \<open>preparar_dados\<close> can raise.\<close>

datatype error = KeyError string | ValueError string | TypeError string

text \<open>\<open>s.startswith(x)\<close>\<close>

fun startswith :: "string \<Rightarrow> string \<Rightarrow> bool" where
  "startswith s [] = True"
| "startswith [] (c # x) = False"
| "startswith (d # s) (c # x) = (d = c \<and> startswith s x)"

text \<open>\<open>s.find(x)\<close>: the lowest position at which \<open>x\<close> occurs in \<open>s\<close> as a substring.\<close>

fun str_find :: "string \<Rightarrow> string \<Rightarrow> nat option" where
  "str_find [] x = (if x = [] then Some 0 else None)"
| "str_find (d # s) x =
     (if startswith (d # s) x then Some 0 else map_option Suc (str_find s x))"

text \<open>\<open>x in s\<close> on two strings is substring containment.\<close>

definition str_contains :: "string \<Rightarrow> string \<Rightarrow> bool" where
  "str_contains x s = (str_find s x \<noteq> None)"

text \<open>\<open>s.index(x)\<close> is \<open>s.find(x)\<close> that raises ValueError when there is no occurrence.\<close>

definition str_index :: "string \<Rightarrow> string \<Rightarrow> error + int" where
  "str_index s x =
     (case str_find s x of
        None \<Rightarrow> Inl (ValueError ''substring not found'')
      | Some i \<Rightarrow> Inr (int i))"

section \<open>The income index and the income bucket (lines 192-196 and 374)\<close>

text \<open>
  Line 193:
  \<^verbatim>\<open>lambda x: 'A B C D E F G H I J K L M N O P Q'.index(x) if x in 'ABCDEFGHIJKLMNOPQ' else -1\<close>
\<close>

definition letras_renda :: string where
  "letras_renda = ''ABCDEFGHIJKLMNOPQ''"

definition letras_renda_espacadas :: string where
  "letras_renda_espacadas = ''A B C D E F G H I J K L M N O P Q''"

definition indice_faixa :: "string \<Rightarrow> error + int" where
  "indice_faixa x =
     (if str_contains x letras_renda then str_index letras_renda_espacadas x
      else Inr (- 1))"

text \<open>
  Line 374, in \<open>analisar_renda_notas\<close>: the same expression with \<open>np.nan\<close> in the
  else branch; \<open>None\<close> stands for \<open>np.nan\<close>.
\<close>

definition indice_renda :: "string \<Rightarrow> error + int option" where
  "indice_renda x =
     (if str_contains x letras_renda
      then (case str_index letras_renda_espacadas x of
              Inl e \<Rightarrow> Inl e | Inr i \<Rightarrow> Inr (Some i))
      else Inr None)"

text \<open>
  The lambdas receive an object, not always a str.  On a str they are the two
  functions above; on anything else the test \<open>x in '...'\<close> raises TypeError.
\<close>

definition nao_e_texto :: error where
  "nao_e_texto = TypeError ''in <string> requires string as left operand, not float''"

definition lambda_faixa :: "cell \<Rightarrow> error + int" where
  "lambda_faixa x = (case x of Str s \<Rightarrow> indice_faixa s | _ \<Rightarrow> Inl nao_e_texto)"

definition lambda_renda :: "cell \<Rightarrow> error + int option" where
  "lambda_renda x = (case x of Str s \<Rightarrow> indice_renda s | _ \<Rightarrow> Inl nao_e_texto)"

text \<open>
  The repository pins no version of pandas, and \<open>Series.astype('str')\<close> differs
  between them on a null: before pandas 3 it becomes the text \<open>'nan'\<close>, from
  pandas 3 on it stays null.
\<close>

datatype pandas = Pandas_2 | Pandas_3

text \<open>
  \<open>Series.astype('str')\<close> on one cell.  The text that Python prints for a float is
  not part of the program; it is the parameter \<open>float_str\<close>.
\<close>

fun astype_str :: "(real \<Rightarrow> string) \<Rightarrow> pandas \<Rightarrow> cell \<Rightarrow> cell" where
  "astype_str float_str Pandas_2 NaN = Str ''nan''"
| "astype_str float_str Pandas_3 NaN = NaN"
| "astype_str float_str ver (Num r) = Str (float_str r)"
| "astype_str float_str ver (Str s) = Str s"

text \<open>
  \<open>Series.map(f)\<close> with a Python function: the elements in order, the first
  exception raised by \<open>f\<close> ends the call.
\<close>

fun series_map_fn :: "('a \<Rightarrow> error + 'b) \<Rightarrow> 'a list \<Rightarrow> error + 'b list" where
  "series_map_fn f [] = Inr []"
| "series_map_fn f (x # xs) =
     (case f x of
        Inl e \<Rightarrow> Inl e
      | Inr y \<Rightarrow> (case series_map_fn f xs of Inl e \<Rightarrow> Inl e | Inr ys \<Rightarrow> Inr (y # ys)))"

text \<open>
  \<open>pd.cut(x, bins=..., labels=...)\<close> with a list of bin edges and a list of
  labels, \<open>right=True\<close>, \<open>include_lowest=False\<close>, \<open>ordered=True\<close> (the defaults
  the call at line 192 leaves in force).  pandas checks that the edges increase,
  that they are unique, that the labels are unique and that there is one label
  fewer than there are edges, and raises ValueError otherwise.  A value \<open>v\<close> falls
  in the interval \<open>(bins[i-1], bins[i]]\<close>, where \<open>i\<close> counts the edges below \<open>v\<close>;
  at or below the first edge, or above the last, the result is null.
\<close>

definition bin_label :: "int list \<Rightarrow> string list \<Rightarrow> int \<Rightarrow> cell" where
  "bin_label bins labels v =
     (let ids = length (filter (\<lambda>b. b < v) bins)
      in if ids = 0 \<or> ids = length bins then NaN else Str (labels ! (ids - 1)))"

definition pd_cut :: "int list \<Rightarrow> int list \<Rightarrow> string list \<Rightarrow> error + cell list" where
  "pd_cut x bins labels =
     (if \<not> sorted bins then Inl (ValueError ''bins must increase monotonically.'')
      else if \<not> distinct bins \<and> length bins \<noteq> 2
        then Inl (ValueError ''Bin edges must be unique'')
      else if \<not> distinct labels
        then Inl (ValueError ''labels must be unique if ordered=True'')
      else if length labels \<noteq> length bins - 1
        then Inl (ValueError ''Bin labels must be one fewer than the number of bin edges'')
      else Inr (map (bin_label bins labels) x))"

text \<open>Lines 194 and 195: the edges and the labels passed to \<open>pd.cut\<close>.\<close>

definition faixa_bins :: "int list" where
  "faixa_bins = [- 1, 0, 3, 6, 10, 16]"

definition faixa_labels :: "string list" where
  "faixa_labels =
     [''Sem resposta'', ''Baixa'', ''M'' @ [CHR 0xE9] @ ''dia-Baixa'',
      ''M'' @ [CHR 0xE9] @ ''dia'', ''M'' @ [CHR 0xE9] @ ''dia-Alta'', ''Alta'']"

section \<open>DataFrames, and the store that holds them\<close>

text \<open>
  A DataFrame is the list of its columns in order, each a name with the cells of
  its rows.  The row labels play no part in \<open>preparar_dados\<close>: every column it
  assigns is computed from a column of the same frame.
\<close>

type_synonym frame = "(string \<times> cell list) list"

definition columns :: "frame \<Rightarrow> string list" where
  "columns f = map fst f"

text \<open>\<open>df[name]\<close>: KeyError when there is no such column.\<close>

definition getitem :: "frame \<Rightarrow> string \<Rightarrow> error + cell list" where
  "getitem f name =
     (case map_of f name of None \<Rightarrow> Inl (KeyError name) | Some xs \<Rightarrow> Inr xs)"

text \<open>\<open>df[name] = xs\<close>: replaces the column where it stands, or adds it as the last one.\<close>

definition setitem :: "frame \<Rightarrow> string \<Rightarrow> cell list \<Rightarrow> frame" where
  "setitem f name xs = AList.update name xs f"

text \<open>\<open>df[mask]\<close> with a boolean Series: the rows whose entry in the Series is True.\<close>

definition keep_rows :: "bool list \<Rightarrow> 'a list \<Rightarrow> 'a list" where
  "keep_rows sel xs = map fst (filter snd (zip xs sel))"

definition select_rows :: "bool list \<Rightarrow> frame \<Rightarrow> frame" where
  "select_rows sel f = map (\<lambda>(name, xs). (name, keep_rows sel xs)) f"

text \<open>\<open>df.dropna(subset=[name])\<close>: KeyError when the column is missing.\<close>

definition dropna :: "frame \<Rightarrow> string \<Rightarrow> error + frame" where
  "dropna f name =
     (case map_of f name of
        None \<Rightarrow> Inl (KeyError name)
      | Some xs \<Rightarrow> Inr (select_rows (map (\<lambda>v. v \<noteq> NaN) xs) f))"

text \<open>
  \<open>pd.to_numeric(..., errors='coerce')\<close> on one cell.  How pandas reads a string
  as a float is not part of the program; it is the parameter \<open>parse\<close>, which
  answers \<open>None\<close> for a string that is no number.
\<close>

fun to_numeric :: "(string \<Rightarrow> real option) \<Rightarrow> cell \<Rightarrow> cell" where
  "to_numeric parse NaN = NaN"
| "to_numeric parse (Num r) = Num r"
| "to_numeric parse (Str s) = (case parse s of None \<Rightarrow> NaN | Some r \<Rightarrow> Num r)"

text \<open>\<open>Series.map(d)\<close> with a dict: a cell that is no key of \<open>d\<close> becomes null.\<close>

definition series_map_dict :: "(cell \<times> string) list \<Rightarrow> cell list \<Rightarrow> cell list" where
  "series_map_dict d xs =
     map (\<lambda>v. case map_of d v of None \<Rightarrow> NaN | Some l \<Rightarrow> Str l) xs"

text \<open>
  The DataFrame objects live in a store; a variable of the program holds the
  position of its object.  A statement is a function from the store to its
  outcome (the exception raised, or a value) and the store it leaves.
\<close>

type_synonym store = "frame list"

type_synonym 'a prog = "store \<Rightarrow> (error + 'a) \<times> store"

definition ret :: "'a \<Rightarrow> 'a prog" where
  "ret x = (\<lambda>st. (Inr x, st))"

definition lift :: "error + 'a \<Rightarrow> 'a prog" where
  "lift r = (\<lambda>st. (r, st))"

definition seq :: "'a prog \<Rightarrow> ('a \<Rightarrow> 'b prog) \<Rightarrow> 'b prog" where
  "seq m k = (\<lambda>st. case m st of (Inl e, st') \<Rightarrow> (Inl e, st') | (Inr x, st') \<Rightarrow> k x st')"

definition deref :: "nat \<Rightarrow> frame prog" where
  "deref c = (\<lambda>st. (Inr (st ! c), st))"

definition alloc :: "frame \<Rightarrow> nat prog" where
  "alloc f = (\<lambda>st. (Inr (length st), st @ [f]))"

definition assign :: "nat \<Rightarrow> frame \<Rightarrow> unit prog" where
  "assign c f = (\<lambda>st. (Inr (), st[c := f]))"

text \<open>\<open>df.copy()\<close>, \<open>df[mask]\<close> and \<open>df.dropna(...)\<close> build a new object.\<close>

definition df_copy :: "nat \<Rightarrow> nat prog" where
  "df_copy c = seq (deref c) alloc"

definition df_mask :: "nat \<Rightarrow> bool list \<Rightarrow> nat prog" where
  "df_mask c sel = seq (deref c) (\<lambda>f. alloc (select_rows sel f))"

definition df_dropna :: "nat \<Rightarrow> string \<Rightarrow> nat prog" where
  "df_dropna c name = seq (deref c) (\<lambda>f. seq (lift (dropna f name)) alloc)"

text \<open>\<open>df[name]\<close> and \<open>df.columns\<close> read the object; \<open>df[name] = xs\<close> changes it in place.\<close>

definition df_getitem :: "nat \<Rightarrow> string \<Rightarrow> cell list prog" where
  "df_getitem c name = seq (deref c) (\<lambda>f. lift (getitem f name))"

definition df_columns :: "nat \<Rightarrow> string list prog" where
  "df_columns c = seq (deref c) (\<lambda>f. ret (columns f))"

definition df_setitem :: "nat \<Rightarrow> string \<Rightarrow> cell list \<Rightarrow> unit prog" where
  "df_setitem c name xs = seq (deref c) (\<lambda>f. assign c (setitem f name xs))"

section \<open>preparar_dados\<close>

definition colunas_numericas :: "string list" where
  "colunas_numericas =
     [''NU_NOTA_CN'', ''NU_NOTA_CH'', ''NU_NOTA_LC'', ''NU_NOTA_MT'', ''NU_NOTA_REDACAO'']"

text \<open>
  Lines 99-101:
  \<^verbatim>\<open>for col in colunas_numericas:
    if col in df_clean.columns:
        df_clean[col] = pd.to_numeric(df_clean[col], errors='coerce')\<close>
\<close>

fun converter_numericas :: "(string \<Rightarrow> real option) \<Rightarrow> nat \<Rightarrow> string list \<Rightarrow> unit prog" where
  "converter_numericas parse df_clean [] = ret ()"
| "converter_numericas parse df_clean (col # cols) =
     seq (df_columns df_clean) (\<lambda>cs.
       if col \<in> set cs
       then seq (df_getitem df_clean col) (\<lambda>xs.
            seq (df_setitem df_clean col (map (to_numeric parse) xs)) (\<lambda>_.
            converter_numericas parse df_clean cols))
       else converter_numericas parse df_clean cols)"

text \<open>The lookup tables of lines 106-188.\<close>

definition mapa_faixa_etaria :: "(cell \<times> string) list" where
  "mapa_faixa_etaria =
     [(Num 1, ''Menor de 17 anos''), (Num 2, ''17 anos''), (Num 3, ''18 anos''),
      (Num 4, ''19 anos''), (Num 5, ''20 anos''), (Num 6, ''21 anos''),
      (Num 7, ''22 anos''), (Num 8, ''23 anos''), (Num 9, ''24 anos''),
      (Num 10, ''25 anos''), (Num 11, ''Entre 26 e 30 anos''),
      (Num 12, ''Entre 31 e 35 anos''), (Num 13, ''Entre 36 e 40 anos''),
      (Num 14, ''Entre 41 e 45 anos''), (Num 15, ''Entre 46 e 50 anos''),
      (Num 16, ''Entre 51 e 55 anos''), (Num 17, ''Entre 56 e 60 anos''),
      (Num 18, ''Entre 61 e 65 anos''), (Num 19, ''Entre 66 e 70 anos''),
      (Num 20, ''Maior de 70 anos'')]"

definition mapa_tipo_escola :: "(cell \<times> string) list" where
  "mapa_tipo_escola =
     [(Num 1, ''N'' @ [CHR 0xE3] @ ''o Respondeu''), (Num 2, ''P'' @ [CHR 0xFA] @ ''blica''),
      (Num 3, ''Privada''), (Num 4, ''Exterior'')]"

definition mapa_localizacao :: "(cell \<times> string) list" where
  "mapa_localizacao = [(Num 1, ''Urbana''), (Num 2, ''Rural'')]"

definition mapa_escolaridade :: "(cell \<times> string) list" where
  "mapa_escolaridade =
     [(Str ''A'', ''Nunca estudou''),
      (Str ''B'', ''Ensino Fundamental I Incompleto''),
      (Str ''C'', ''Ensino Fundamental I Completo''),
      (Str ''D'', ''Ensino Fundamental II Incompleto''),
      (Str ''E'', ''Ensino Fundamental II Completo''),
      (Str ''F'', ''Ensino M'' @ [CHR 0xE9] @ ''dio Incompleto''),
      (Str ''G'', ''Ensino M'' @ [CHR 0xE9] @ ''dio Completo''),
      (Str ''H'', ''Ensino Superior Incompleto''),
      (Str ''I'', ''Ensino Superior Completo''),
      (Str ''J'', ''P'' @ [CHR 0xF3] @ ''s-gradua'' @ [CHR 0xE7, CHR 0xE3] @ ''o'')]"

definition mapa_renda :: "(cell \<times> string) list" where
  "mapa_renda =
     [(Str ''A'', ''Nenhuma renda''),
      (Str ''B'', ''At'' @ [CHR 0xE9] @ '' R$ 1.412,00''),
      (Str ''C'', ''R$ 1.412,01 a R$ 2.824,00''),
      (Str ''D'', ''R$ 2.824,01 a R$ 4.236,00''),
      (Str ''E'', ''R$ 4.236,01 a R$ 5.648,00''),
      (Str ''F'', ''R$ 5.648,01 a R$ 7.060,00''),
      (Str ''G'', ''R$ 7.060,01 a R$ 8.472,00''),
      (Str ''H'', ''R$ 8.472,01 a R$ 9.884,00''),
      (Str ''I'', ''R$ 9.884,01 a R$ 11.296,00''),
      (Str ''J'', ''R$ 11.296,01 a R$ 12.708,00''),
      (Str ''K'', ''R$ 12.708,01 a R$ 14.120,00''),
      (Str ''L'', ''R$ 14.120,01 a R$ 15.532,00''),
      (Str ''M'', ''R$ 15.532,01 a R$ 16.944,00''),
      (Str ''N'', ''R$ 16.944,01 a R$ 18.356,00''),
      (Str ''O'', ''R$ 18.356,01 a R$ 19.768,00''),
      (Str ''P'', ''R$ 19.768,01 a R$ 21.180,00''),
      (Str ''Q'', ''Acima de R$ 21.180,01'')]"

definition mapa_internet :: "(cell \<times> string) list" where
  "mapa_internet = [(Str ''A'', ''Sim''), (Str ''B'', ''N'' @ [CHR 0xE3] @ ''o'')]"

text \<open>\<open>df_clean[dst] = df_clean[src].map(d)\<close>, the statement of lines 128 to 189.\<close>

definition mapear :: "nat \<Rightarrow> string \<Rightarrow> string \<Rightarrow> (cell \<times> string) list \<Rightarrow> unit prog" where
  "mapear df_clean dst src d =
     seq (df_getitem df_clean src) (\<lambda>xs. df_setitem df_clean dst (series_map_dict d xs))"

text \<open>
  Lines 192-196.  Python evaluates the argument of \<open>pd.cut\<close> first: the column,
  its cells as strings, the lambda on each of them; then the call itself.
\<close>

definition agrupar_renda :: "(real \<Rightarrow> string) \<Rightarrow> pandas \<Rightarrow> nat \<Rightarrow> unit prog" where
  "agrupar_renda float_str ver df_clean =
     seq (df_getitem df_clean ''Q006'') (\<lambda>q.
     seq (lift (series_map_fn lambda_faixa (map (astype_str float_str ver) q))) (\<lambda>x.
     seq (lift (pd_cut x faixa_bins faixa_labels)) (\<lambda>faixa.
     df_setitem df_clean ''FAIXA_RENDA'' faixa)))"

text \<open>
  Lines 88-94.  The variable \<open>df_clean\<close> is bound three times, each time to a new
  object: the copy, the rows with presence 1, and of those the rows whose score
  is not null.
\<close>

definition filtrar_presentes :: "nat \<Rightarrow> nat prog" where
  "filtrar_presentes df =
     seq (df_copy df) (\<lambda>df_clean.
     seq (df_getitem df_clean ''TP_PRESENCA_CH'') (\<lambda>presenca.
     seq (df_mask df_clean (map (\<lambda>v. v = Num 1) presenca)) (\<lambda>df_clean.
     df_dropna df_clean ''NU_NOTA_CH'')))"

text \<open>Lines 128-189: the seven derived columns, assigned in place.\<close>

definition criar_derivadas :: "nat \<Rightarrow> unit prog" where
  "criar_derivadas df_clean =
     seq (mapear df_clean ''FAIXA_ETARIA_DESC'' ''TP_FAIXA_ETARIA'' mapa_faixa_etaria) (\<lambda>_.
     seq (mapear df_clean ''TIPO_ESCOLA_DESC'' ''TP_ESCOLA'' mapa_tipo_escola) (\<lambda>_.
     seq (mapear df_clean ''LOCALIZACAO_ESCOLA_DESC'' ''TP_LOCALIZACAO_ESC'' mapa_localizacao) (\<lambda>_.
     seq (mapear df_clean ''ESCOLARIDADE_PAI'' ''Q001'' mapa_escolaridade) (\<lambda>_.
     seq (mapear df_clean ''ESCOLARIDADE_MAE'' ''Q002'' mapa_escolaridade) (\<lambda>_.
     seq (mapear df_clean ''RENDA_FAMILIAR'' ''Q006'' mapa_renda) (\<lambda>_.
     mapear df_clean ''ACESSO_INTERNET'' ''Q025'' mapa_internet))))))"

text \<open>
  Lines 88-189: everything \<open>preparar_dados\<close> does before the income bucket.  The
  result is the object that \<open>df_clean\<close> holds when line 192 starts.
\<close>

definition limpar_e_derivar :: "(string \<Rightarrow> real option) \<Rightarrow> nat \<Rightarrow> nat prog" where
  "limpar_e_derivar parse df =
     seq (filtrar_presentes df) (\<lambda>df_clean.
     seq (converter_numericas parse df_clean colunas_numericas) (\<lambda>_.
     seq (criar_derivadas df_clean) (\<lambda>_.
     ret df_clean)))"

text \<open>The whole function: lines 88-189, the bucket of lines 192-196, \<open>return df_clean\<close>.\<close>

definition preparar_dados ::
  "(string \<Rightarrow> real option) \<Rightarrow> (real \<Rightarrow> string) \<Rightarrow> pandas \<Rightarrow> nat \<Rightarrow> nat prog" where
  "preparar_dados parse float_str ver df =
     seq (limpar_e_derivar parse df) (\<lambda>df_clean.
     seq (agrupar_renda float_str ver df_clean) (\<lambda>_.
     ret df_clean))"

text \<open>The columns that \<open>preparar_dados\<close> reads without asking whether they exist.\<close>

definition colunas_lidas :: "string list" where
  "colunas_lidas =
     [''TP_PRESENCA_CH'', ''NU_NOTA_CH'', ''TP_FAIXA_ETARIA'', ''TP_ESCOLA'',
      ''TP_LOCALIZACAO_ESC'', ''Q001'', ''Q002'', ''Q006'', ''Q025'']"

text \<open>
  The seven assignments of lines 128-189, in order: the column assigned, the
  column read and the table.
\<close>

definition derivacoes :: "(string \<times> string \<times> (cell \<times> string) list) list" where
  "derivacoes =
     [(''FAIXA_ETARIA_DESC'', ''TP_FAIXA_ETARIA'', mapa_faixa_etaria),
      (''TIPO_ESCOLA_DESC'', ''TP_ESCOLA'', mapa_tipo_escola),
      (''LOCALIZACAO_ESCOLA_DESC'', ''TP_LOCALIZACAO_ESC'', mapa_localizacao),
      (''ESCOLARIDADE_PAI'', ''Q001'', mapa_escolaridade),
      (''ESCOLARIDADE_MAE'', ''Q002'', mapa_escolaridade),
      (''RENDA_FAMILIAR'', ''Q006'', mapa_renda),
      (''ACESSO_INTERNET'', ''Q025'', mapa_internet)]"

text \<open>The columns that lines 128-189 assign.\<close>

definition colunas_derivadas :: "string list" where
  "colunas_derivadas =
     [''FAIXA_ETARIA_DESC'', ''TIPO_ESCOLA_DESC'', ''LOCALIZACAO_ESCOLA_DESC'',
      ''ESCOLARIDADE_PAI'', ''ESCOLARIDADE_MAE'', ''RENDA_FAMILIAR'', ''ACESSO_INTERNET'']"

section \<open>What the statements compute, as functions on one frame\<close>

text \<open>
  The statements after line 94 all work on the one object that \<open>df_clean\<close> holds.
  What each of them does to that object is a function from frames to frames (or
  to the exception raised); the lemmas below tie each statement to its function.
\<close>

definition bind_err :: "error + 'a \<Rightarrow> ('a \<Rightarrow> error + 'b) \<Rightarrow> error + 'b" where
  "bind_err r k = (case r of Inl e \<Rightarrow> Inl e | Inr x \<Rightarrow> k x)"

definition filtrar_frame :: "frame \<Rightarrow> error + frame" where
  "filtrar_frame f =
     bind_err (getitem f ''TP_PRESENCA_CH'') (\<lambda>presenca.
     dropna (select_rows (map (\<lambda>v. v = Num 1) presenca) f) ''NU_NOTA_CH'')"

fun converter_frame :: "(string \<Rightarrow> real option) \<Rightarrow> string list \<Rightarrow> frame \<Rightarrow> frame" where
  "converter_frame parse [] f = f"
| "converter_frame parse (col # cols) f =
     converter_frame parse cols
       (case map_of f col of
          None \<Rightarrow> f
        | Some xs \<Rightarrow> setitem f col (map (to_numeric parse) xs))"

definition mapear_frame :: "string \<Rightarrow> string \<Rightarrow> (cell \<times> string) list \<Rightarrow> frame \<Rightarrow> error + frame" where
  "mapear_frame dst src d f =
     bind_err (getitem f src) (\<lambda>xs. Inr (setitem f dst (series_map_dict d xs)))"

definition derivadas_frame :: "frame \<Rightarrow> error + frame" where
  "derivadas_frame f0 =
     bind_err (mapear_frame ''FAIXA_ETARIA_DESC'' ''TP_FAIXA_ETARIA'' mapa_faixa_etaria f0) (\<lambda>f1.
     bind_err (mapear_frame ''TIPO_ESCOLA_DESC'' ''TP_ESCOLA'' mapa_tipo_escola f1) (\<lambda>f2.
     bind_err (mapear_frame ''LOCALIZACAO_ESCOLA_DESC'' ''TP_LOCALIZACAO_ESC'' mapa_localizacao f2) (\<lambda>f3.
     bind_err (mapear_frame ''ESCOLARIDADE_PAI'' ''Q001'' mapa_escolaridade f3) (\<lambda>f4.
     bind_err (mapear_frame ''ESCOLARIDADE_MAE'' ''Q002'' mapa_escolaridade f4) (\<lambda>f5.
     bind_err (mapear_frame ''RENDA_FAMILIAR'' ''Q006'' mapa_renda f5) (\<lambda>f6.
     mapear_frame ''ACESSO_INTERNET'' ''Q025'' mapa_internet f6))))))"

definition limpar_frame :: "(string \<Rightarrow> real option) \<Rightarrow> frame \<Rightarrow> error + frame" where
  "limpar_frame parse f =
     bind_err (filtrar_frame f) (\<lambda>f'.
     derivadas_frame (converter_frame parse colunas_numericas f'))"

definition renda_frame :: "(real \<Rightarrow> string) \<Rightarrow> pandas \<Rightarrow> frame \<Rightarrow> error + frame" where
  "renda_frame float_str ver f =
     bind_err (getitem f ''Q006'') (\<lambda>q.
     bind_err (series_map_fn lambda_faixa (map (astype_str float_str ver) q)) (\<lambda>x.
     bind_err (pd_cut x faixa_bins faixa_labels) (\<lambda>faixa.
     Inr (setitem f ''FAIXA_RENDA'' faixa))))"

definition preparar_frame ::
  "(string \<Rightarrow> real option) \<Rightarrow> (real \<Rightarrow> string) \<Rightarrow> pandas \<Rightarrow> frame \<Rightarrow> error + frame" where
  "preparar_frame parse float_str ver f =
     bind_err (limpar_frame parse f) (renda_frame float_str ver)"

text \<open>
  A statement \<open>m\<close> works in place on the object at \<open>c\<close> as \<open>g\<close> says: it changes no
  other object, raises what \<open>g\<close> raises, and on success leaves \<open>g\<close>'s frame at \<open>c\<close>.
\<close>

definition inplace :: "nat \<Rightarrow> unit prog \<Rightarrow> (frame \<Rightarrow> error + frame) \<Rightarrow> bool" where
  "inplace c m g =
     (\<forall>st. c < length st \<longrightarrow>
        (\<exists>f. snd (m st) = st[c := f] \<and>
             fst (m st) = map_sum id (\<lambda>_. ()) (g (st ! c)) \<and>
             (\<forall>f'. g (st ! c) = Inr f' \<longrightarrow> f = f')))"

section \<open>Example batches\<close>

text \<open>
  A reading of strings as floats and a printing of floats, for the examples: the
  two strings are read as pandas reads them, every other string is no number.
\<close>

definition parse_exemplo :: "string \<Rightarrow> real option" where
  "parse_exemplo s =
     (if s = ''450.5'' then Some 450.5 else if s = ''550.0'' then Some 550 else None)"

definition float_str_exemplo :: "real \<Rightarrow> string" where
  "float_str_exemplo r = ''550.0''"

text \<open>
  Five participants.  The first is present with score 550.0 and income code F,
  the second is absent; the others are present with a score.
\<close>

definition lote_exemplo :: frame where
  "lote_exemplo =
     [(''TP_FAIXA_ETARIA'', [Num 3, Num 2, Num 11, Num 25, Num 1]),
      (''TP_ESCOLA'', [Num 2, Num 2, Num 3, Num 1, Num 9]),
      (''TP_LOCALIZACAO_ESC'', [Num 1, Num 1, Num 2, NaN, Num 1]),
      (''Q001'', [Str ''E'', Str ''B'', Str ''H'', Str ''Z'', Str ''A'']),
      (''Q002'', [Str ''G'', Str ''C'', Str ''J'', NaN, Str ''B'']),
      (''Q006'', [Str ''F'', Str ''B'', Str ''A'', Str ''Q'', NaN]),
      (''Q025'', [Str ''A'', Str ''B'', Str ''A'', Str ''A'', Str ''B'']),
      (''NU_NOTA_CN'', [Num 480, NaN, Str ''450.5'', Str ''abc'', Num 500]),
      (''NU_NOTA_CH'', [Num 550, NaN, Num 610, Num 430, Num 720]),
      (''TP_PRESENCA_CH'', [Num 1, Num 0, Num 1, Num 1, Num 1])]"

text \<open>One participant, present, every code in its table, every score a number.\<close>

definition lote_simples :: frame where
  "lote_simples =
     [(''TP_FAIXA_ETARIA'', [Num 3]), (''TP_ESCOLA'', [Num 2]), (''TP_LOCALIZACAO_ESC'', [Num 1]),
      (''Q001'', [Str ''E'']), (''Q002'', [Str ''G'']), (''Q006'', [Str ''C'']),
      (''Q025'', [Str ''A'']), (''NU_NOTA_CN'', [Num 480]), (''NU_NOTA_CH'', [Num 550]),
      (''TP_PRESENCA_CH'', [Num 1])]"

text \<open>The same participant with the two-letter income code AB.\<close>

definition lote_AB :: frame where
  "lote_AB = setitem lote_simples ''Q006'' [Str ''AB'']"

text \<open>The same participant with scores that are no numbers.\<close>

definition lote_abc :: frame where
  "lote_abc =
     setitem (setitem lote_simples ''NU_NOTA_CN'' [Str ''abc'']) ''NU_NOTA_CH'' [Str ''abc'']"

text \<open>The same participant in a batch that already has a column RENDA_FAMILIAR.\<close>

definition lote_com_rotulo :: frame where
  "lote_com_rotulo = setitem lote_simples ''RENDA_FAMILIAR'' [Str ''alta'']"


definition lote_sem_nota :: frame where
  "lote_sem_nota =
     [(''TP_FAIXA_ETARIA'', [Num 3]), (''TP_ESCOLA'', [Num 2]), (''TP_LOCALIZACAO_ESC'', [Num 1]),
      (''Q001'', [Str ''E'']), (''Q002'', [Str ''G'']), (''Q006'', [Str ''C'']),
      (''Q025'', [Str ''A'']), (''TP_PRESENCA_CH'', [Num 1])]"

section \<open>Each statement and its function on the frame\<close>

lemma df_copy_run: "df_copy c st = (Inr (length st), st @ [st ! c])"
  by (simp add: df_copy_def seq_def deref_def alloc_def)

lemma df_getitem_run: "df_getitem c name st = (getitem (st ! c) name, st)"
  by (simp add: df_getitem_def seq_def deref_def lift_def)

lemma df_columns_run: "df_columns c st = (Inr (columns (st ! c)), st)"
  by (simp add: df_columns_def seq_def deref_def ret_def)

lemma df_mask_run: "df_mask c sel st = (Inr (length st), st @ [select_rows sel (st ! c)])"
  by (simp add: df_mask_def seq_def deref_def alloc_def)

lemma df_dropna_run: "df_dropna c name st = (case dropna (st ! c) name of Inl e \<Rightarrow> (Inl e, st) | Inr f \<Rightarrow> (Inr (length st), st @ [f]))"
  by (simp add: df_dropna_def seq_def deref_def alloc_def lift_def split: sum.splits)

lemma df_setitem_run: "df_setitem c name xs st = (Inr (), st[c := setitem (st ! c) name xs])"
  by (simp add: df_setitem_def seq_def deref_def assign_def)

lemma in_columns: "col \<in> set (columns f) \<longleftrightarrow> map_of f col \<noteq> None"
  by (simp add: columns_def map_of_eq_None_iff)

lemma converter_run: "c < length st \<Longrightarrow> converter_numericas p c cols st = (Inr (), st[c := converter_frame p cols (st ! c)])"
proof (induction cols arbitrary: st)
  case Nil
  then show ?case by (simp add: ret_def)
next
  case (Cons col cols)
  show ?case
  proof (cases "map_of (st ! c) col")
    case None
    then show ?thesis using Cons by (simp add: seq_def df_columns_run in_columns)
  next
    case (Some xs)
    then show ?thesis using Cons 
      by (simp add: seq_def df_columns_run in_columns df_getitem_run df_setitem_run getitem_def)
  qed
qed

lemma pd_cut_faixa: "pd_cut x faixa_bins faixa_labels = Inl (ValueError ''Bin labels must be one fewer than the number of bin edges'')"
  by (simp add: pd_cut_def faixa_bins_def faixa_labels_def)


lemma inplaceI:
  "(\<And>st. c < length st \<Longrightarrow>
        \<exists>f. snd (m st) = st[c := f] \<and> fst (m st) = map_sum id (\<lambda>_. ()) (g (st ! c)) \<and>
            (\<forall>f'. g (st ! c) = Inr f' \<longrightarrow> f = f')) \<Longrightarrow> inplace c m g"
  by (simp add: inplace_def)

lemma inplaceD:
  "inplace c m g \<Longrightarrow> c < length st \<Longrightarrow>
     \<exists>f. snd (m st) = st[c := f] \<and> fst (m st) = map_sum id (\<lambda>_. ()) (g (st ! c)) \<and>
         (\<forall>f'. g (st ! c) = Inr f' \<longrightarrow> f = f')"
  by (simp add: inplace_def)

lemma inplace_seq:
  assumes m: "inplace c m g" and k: "inplace c k h"
  shows "inplace c (seq m (\<lambda>_. k)) (\<lambda>f. bind_err (g f) h)"
proof (rule inplaceI)
  fix st :: store assume c: "c < length st"
  from inplaceD[OF m c] obtain f where
    f: "snd (m st) = st[c := f]" "fst (m st) = map_sum id (\<lambda>_. ()) (g (st ! c))"
       "\<forall>f'. g (st ! c) = Inr f' \<longrightarrow> f = f'" by blast
  show "\<exists>f. snd (seq m (\<lambda>_. k) st) = st[c := f] \<and>
            fst (seq m (\<lambda>_. k) st) = map_sum id (\<lambda>_. ()) (bind_err (g (st ! c)) h) \<and>
            (\<forall>f'. bind_err (g (st ! c)) h = Inr f' \<longrightarrow> f = f')"
  proof (cases "g (st ! c)")
    case (Inl e)
    with f have "m st = (Inl e, st[c := f])" by (simp add: prod_eq_iff)
    with Inl show ?thesis
      by (intro exI[of _ f]) (simp add: seq_def bind_err_def)
  next
    case (Inr f1)
    with f have ms: "m st = (Inr (), st[c := f1])" by (simp add: prod_eq_iff)
    from c have c': "c < length (st[c := f1])" by simp
    from inplaceD[OF k c'] obtain f2 where
      f2: "snd (k (st[c := f1])) = st[c := f1, c := f2]"
          "fst (k (st[c := f1])) = map_sum id (\<lambda>_. ()) (h (st[c := f1] ! c))"
          "\<forall>f'. h (st[c := f1] ! c) = Inr f' \<longrightarrow> f2 = f'" by blast
    from c have nth: "st[c := f1] ! c = f1" by simp
    have sq: "seq m (\<lambda>_. k) st = k (st[c := f1])" using ms by (simp add: seq_def)
    show ?thesis using f2 Inr nth sq
      by (intro exI[of _ f2]) (simp add: bind_err_def)
  qed
qed

lemma inplace_mapear: "inplace c (mapear c dst src d) (mapear_frame dst src d)"
proof (rule inplaceI)
  fix st :: store assume c: "c < length st"
  show "\<exists>f. snd (mapear c dst src d st) = st[c := f] \<and>
           fst (mapear c dst src d st) = map_sum id (\<lambda>_. ()) (mapear_frame dst src d (st ! c)) \<and>
           (\<forall>f'. mapear_frame dst src d (st ! c) = Inr f' \<longrightarrow> f = f')"
  proof (cases "getitem (st ! c) src")
    case (Inl e)
    then have "mapear c dst src d st = (Inl e, st)"
      by (simp add: mapear_def seq_def df_getitem_run)
    with Inl show ?thesis
      by (intro exI[of _ "st ! c"]) (simp add: mapear_frame_def bind_err_def)
  next
    case (Inr xs)
    then have "mapear c dst src d st = (Inr (), st[c := setitem (st ! c) dst (series_map_dict d xs)])"
      by (simp add: mapear_def seq_def df_getitem_run df_setitem_run)
    with Inr show ?thesis
      by (intro exI[of _ "setitem (st ! c) dst (series_map_dict d xs)"]) (simp add: mapear_frame_def bind_err_def)
  qed
qed

lemma inplace_converter: "inplace c (converter_numericas p c cols) (\<lambda>f. Inr (converter_frame p cols f))"
  by (rule inplaceI) (simp add: converter_run)

lemma inplace_agrupar: "inplace c (agrupar_renda fs ver c) (renda_frame fs ver)"
proof (rule inplaceI)
  fix st :: store assume c: "c < length st"
  let ?msg = "ValueError ''Bin labels must be one fewer than the number of bin edges''"
  show "\<exists>f. snd (agrupar_renda fs ver c st) = st[c := f] \<and>
           fst (agrupar_renda fs ver c st) = map_sum id (\<lambda>_. ()) (renda_frame fs ver (st ! c)) \<and>
           (\<forall>f'. renda_frame fs ver (st ! c) = Inr f' \<longrightarrow> f = f')"
  proof (cases "getitem (st ! c) ''Q006''")
    case (Inl e)
    then have "agrupar_renda fs ver c st = (Inl e, st)"
      by (simp add: agrupar_renda_def seq_def df_getitem_run)
    with Inl show ?thesis
      by (intro exI[of _ "st ! c"]) (simp add: renda_frame_def bind_err_def)
  next
    case (Inr q)
    show ?thesis
    proof (cases "series_map_fn lambda_faixa (map (astype_str fs ver) q)")
      case (Inl e)
      with Inr have "agrupar_renda fs ver c st = (Inl e, st)"
        by (simp add: agrupar_renda_def seq_def df_getitem_run lift_def)
      with Inl Inr show ?thesis
        by (intro exI[of _ "st ! c"]) (simp add: renda_frame_def bind_err_def)
    next
      case x: (Inr x)
      with Inr have "agrupar_renda fs ver c st = (Inl ?msg, st)"
        by (simp add: agrupar_renda_def seq_def df_getitem_run lift_def pd_cut_faixa)
      with x Inr show ?thesis
        by (intro exI[of _ "st ! c"]) (simp add: renda_frame_def bind_err_def pd_cut_faixa)
    qed
  qed
qed

lemma inplace_criar: "inplace c (criar_derivadas c) derivadas_frame"
proof -
  have "inplace c (criar_derivadas c) (\<lambda>f0.
     bind_err (mapear_frame ''FAIXA_ETARIA_DESC'' ''TP_FAIXA_ETARIA'' mapa_faixa_etaria f0) (\<lambda>f1.
     bind_err (mapear_frame ''TIPO_ESCOLA_DESC'' ''TP_ESCOLA'' mapa_tipo_escola f1) (\<lambda>f2.
     bind_err (mapear_frame ''LOCALIZACAO_ESCOLA_DESC'' ''TP_LOCALIZACAO_ESC'' mapa_localizacao f2) (\<lambda>f3.
     bind_err (mapear_frame ''ESCOLARIDADE_PAI'' ''Q001'' mapa_escolaridade f3) (\<lambda>f4.
     bind_err (mapear_frame ''ESCOLARIDADE_MAE'' ''Q002'' mapa_escolaridade f4) (\<lambda>f5.
     bind_err (mapear_frame ''RENDA_FAMILIAR'' ''Q006'' mapa_renda f5) (\<lambda>f6.
     mapear_frame ''ACESSO_INTERNET'' ''Q025'' mapa_internet f6)))))))"
    unfolding criar_derivadas_def
    by (intro inplace_seq inplace_mapear)
  then show ?thesis by (simp add: derivadas_frame_def[abs_def])
qed


lemma seq_assoc: "seq (seq m k) h = seq m (\<lambda>x. seq (k x) h)"
proof (rule ext)
  fix st
  obtain r st' where ms: "m st = (r, st')" by (cases "m st")
  show "seq (seq m k) h st = seq m (\<lambda>x. seq (k x) h) st"
  proof (cases r)
    case (Inl e)
    with ms show ?thesis by (simp add: seq_def)
  next
    case (Inr x)
    with ms show ?thesis by (simp add: seq_def)
  qed
qed

lemma inplace_ret:
  assumes m: "inplace c m g" and c: "c < length st"
  shows "\<exists>f. snd (seq m (\<lambda>_. ret x) st) = st[c := f] \<and>
            fst (seq m (\<lambda>_. ret x) st) = map_sum id (\<lambda>_. x) (g (st ! c)) \<and>
            (\<forall>f'. g (st ! c) = Inr f' \<longrightarrow> f = f')"
proof -
  from inplaceD[OF m c] obtain f where
    f: "snd (m st) = st[c := f]" "fst (m st) = map_sum id (\<lambda>_. ()) (g (st ! c))"
       "\<forall>f'. g (st ! c) = Inr f' \<longrightarrow> f = f'" by blast
  show ?thesis
  proof (cases "g (st ! c)")
    case (Inl e)
    with f have "m st = (Inl e, st[c := f])" by (simp add: prod_eq_iff)
    with Inl show ?thesis by (intro exI[of _ f]) (simp add: seq_def)
  next
    case (Inr f1)
    with f have "m st = (Inr (), st[c := f1])" by (simp add: prod_eq_iff)
    with Inr show ?thesis by (intro exI[of _ f1]) (simp add: seq_def ret_def)
  qed
qed

lemma filtrar_run:
  "filtrar_presentes df st =
     (case getitem (st ! df) ''TP_PRESENCA_CH'' of
        Inl e \<Rightarrow> (Inl e, st @ [st ! df])
      | Inr pres \<Rightarrow>
          (case dropna (select_rows (map (\<lambda>v. v = Num 1) pres) (st ! df)) ''NU_NOTA_CH'' of
             Inl e \<Rightarrow> (Inl e, st @ [st ! df, select_rows (map (\<lambda>v. v = Num 1) pres) (st ! df)])
           | Inr f2 \<Rightarrow> (Inr (length st + 2),
                        st @ [st ! df, select_rows (map (\<lambda>v. v = Num 1) pres) (st ! df), f2])))"
  by (simp add: filtrar_presentes_def seq_def df_copy_run df_getitem_run df_mask_run df_dropna_run
      nth_append split: sum.splits)

lemma limpar_ref:
  assumes df: "df < length st"
  shows "fst (limpar_e_derivar p df st) = map_sum id (\<lambda>_. length st + 2) (limpar_frame p (st ! df)) \<and>
         take (length st) (snd (limpar_e_derivar p df st)) = st \<and>
         (\<forall>W. limpar_frame p (st ! df) = Inr W \<longrightarrow>
              length st + 2 < length (snd (limpar_e_derivar p df st)) \<and>
              snd (limpar_e_derivar p df st) ! (length st + 2) = W)"
proof (cases "filtrar_frame (st ! df)")
  case (Inl e)
  then have "\<exists>st'. filtrar_presentes df st = (Inl e, st') \<and> take (length st) st' = st"
    by (auto simp: filtrar_run filtrar_frame_def bind_err_def split: sum.splits)
  then obtain st' where "filtrar_presentes df st = (Inl e, st')" "take (length st) st' = st" by blast
  with Inl show ?thesis
    by (simp add: limpar_e_derivar_def seq_def limpar_frame_def bind_err_def)
next
  case (Inr f2)
  define c where "c = length st + 2"
  from Inr obtain st1 where st1: "filtrar_presentes df st = (Inr c, st1)" "take (length st) st1 = st"
      "length st1 = length st + 3" "st1 ! c = f2"
    by (auto simp: filtrar_run filtrar_frame_def bind_err_def c_def nth_append split: sum.splits)
  have c: "c < length st1" using st1 by (simp add: c_def)
  let ?m = "seq (converter_numericas p c colunas_numericas) (\<lambda>_. criar_derivadas c)"
  let ?g = "\<lambda>f. bind_err (Inr (converter_frame p colunas_numericas f)) derivadas_frame"
  have ip: "inplace c ?m ?g"
    by (rule inplace_seq[OF inplace_converter inplace_criar])
  have eq: "limpar_e_derivar p df st = seq ?m (\<lambda>_. ret c) st1"
    using st1(1) by (simp add: limpar_e_derivar_def seq_def[of "filtrar_presentes df"] seq_assoc)
  from inplace_ret[OF ip c, of c] obtain f where
    f: "snd (seq ?m (\<lambda>_. ret c) st1) = st1[c := f]"
       "fst (seq ?m (\<lambda>_. ret c) st1) = map_sum id (\<lambda>_. c) (?g (st1 ! c))"
       "\<forall>f'. ?g (st1 ! c) = Inr f' \<longrightarrow> f = f'" by blast
  have lf: "limpar_frame p (st ! df) = ?g f2"
    using Inr by (simp add: limpar_frame_def bind_err_def)
  have tk: "take (length st) (st1[c := f]) = st"
    using st1(2) by (simp add: c_def)
  show ?thesis
    using f st1(3,4) lf tk c unfolding eq by (simp add: c_def)
qed

lemma preparar_ref:
  assumes df: "df < length st"
  shows "fst (preparar_dados p fs ver df st) = map_sum id (\<lambda>_. length st + 2) (preparar_frame p fs ver (st ! df)) \<and>
         take (length st) (snd (preparar_dados p fs ver df st)) = st"
proof -
  obtain r st1 where l: "limpar_e_derivar p df st = (r, st1)" by (cases "limpar_e_derivar p df st")
  from limpar_ref[OF df, of p] l have
    r: "r = map_sum id (\<lambda>_. length st + 2) (limpar_frame p (st ! df))" and
    tk: "take (length st) st1 = st" and
    W: "\<forall>W. limpar_frame p (st ! df) = Inr W \<longrightarrow> length st + 2 < length st1 \<and> st1 ! (length st + 2) = W"
    by simp_all
  show ?thesis
  proof (cases "limpar_frame p (st ! df)")
    case (Inl e)
    with r l tk show ?thesis
      by (simp add: preparar_dados_def seq_def preparar_frame_def bind_err_def)
  next
    case (Inr Wf)
    define c where "c = length st + 2"
    from Inr W have c: "c < length st1" and nth: "st1 ! c = Wf" by (simp_all add: c_def)
    from Inr r have rc: "r = Inr c" by (simp add: c_def)
    have eq: "preparar_dados p fs ver df st = seq (agrupar_renda fs ver c) (\<lambda>_. ret c) st1"
      using l rc by (simp add: preparar_dados_def seq_def[of "limpar_e_derivar p df"])
    from inplace_ret[OF inplace_agrupar c, of fs ver c] obtain f where
      f: "snd (seq (agrupar_renda fs ver c) (\<lambda>_. ret c) st1) = st1[c := f]"
         "fst (seq (agrupar_renda fs ver c) (\<lambda>_. ret c) st1) = map_sum id (\<lambda>_. c) (renda_frame fs ver (st1 ! c))"
      by blast
    have "take (length st) (st1[c := f]) = st" using tk by (simp add: c_def)
    with f nth Inr show ?thesis
      unfolding eq by (simp add: preparar_frame_def bind_err_def c_def)
  qed
qed


lemma getitem_Inr: "getitem f n = Inr xs \<longleftrightarrow> map_of f n = Some xs"
  by (simp add: getitem_def split: option.splits)

lemma getitem_Inl: "getitem f n = Inl e \<longleftrightarrow> map_of f n = None \<and> e = KeyError n"
  by (auto simp: getitem_def split: option.splits)

lemma map_of_select_rows: "map_of (select_rows sel f) n = map_option (keep_rows sel) (map_of f n)"
  by (induction f) (auto simp: select_rows_def)

lemma columns_select_rows: "columns (select_rows sel f) = columns f"
  by (induction f) (auto simp: select_rows_def columns_def)

lemma map_of_setitem: "map_of (setitem f n xs) m = (if m = n then Some xs else map_of f m)"
  by (simp add: setitem_def update_conv')

lemma columns_setitem: "set (columns (setitem f n xs)) = insert n (set (columns f))"
  by (simp add: setitem_def columns_def dom_update)

lemma to_numeric_idem: "to_numeric p (to_numeric p v) = to_numeric p v"
  by (cases v) (simp_all split: option.splits)

lemma map_of_converter_frame:
  "map_of (converter_frame p cols f) n =
     (if n \<in> set cols then map_option (map (to_numeric p)) (map_of f n) else map_of f n)"
proof (induction cols arbitrary: f)
  case Nil
  show ?case by simp
next
  case (Cons col cols)
  show ?case
  proof (cases "map_of f col")
    case None
    then show ?thesis using Cons[of f] by auto
  next
    case (Some xs)
    then show ?thesis using Cons[of "setitem f col (map (to_numeric p) xs)"]
      by (auto simp: map_of_setitem to_numeric_idem)
  qed
qed

lemma columns_converter_frame: "set (columns (converter_frame p cols f)) = set (columns f)"
proof (rule set_eqI)
  fix n
  show "n \<in> set (columns (converter_frame p cols f)) \<longleftrightarrow> n \<in> set (columns f)"
    by (simp add: in_columns map_of_converter_frame)
qed

lemma keep_rows_map_filter: "keep_rows (map P xs) xs = filter P xs"
  by (induction xs) (simp_all add: keep_rows_def)

lemma set_keep_rows: "set (keep_rows sel xs) \<subseteq> set xs"
proof
  fix x assume "x \<in> set (keep_rows sel xs)"
  then obtain b where "(x, b) \<in> set (zip xs sel)" by (auto simp: keep_rows_def)
  then show "x \<in> set xs" by (rule set_zip_leftD)
qed

lemma length_keep_rows: "length (keep_rows sel xs) \<le> length xs"
proof -
  have "length (filter snd (zip xs sel)) \<le> length (zip xs sel)" by (rule length_filter_le)
  also have "\<dots> \<le> length xs" by simp
  finally show ?thesis by (simp add: keep_rows_def)
qed

lemma filtrar_frame_ok:
  assumes "map_of f ''TP_PRESENCA_CH'' = Some pres" and "map_of f ''NU_NOTA_CH'' = Some notas"
  shows "filtrar_frame f =
           Inr (select_rows (map (\<lambda>v. v \<noteq> NaN) (keep_rows (map (\<lambda>v. v = Num 1) pres) notas))
                  (select_rows (map (\<lambda>v. v = Num 1) pres) f))"
  using assms by (simp add: filtrar_frame_def bind_err_def getitem_def dropna_def map_of_select_rows)

lemma mapear_frame_ok:
  "map_of f src = Some xs \<Longrightarrow> mapear_frame dst src d f = Inr (setitem f dst (series_map_dict d xs))"
  by (simp add: mapear_frame_def bind_err_def getitem_def)

section \<open>The income bucket always raises; the derived columns\<close>












lemma derivadas_frame_valores:
  assumes "map_of f ''TP_FAIXA_ETARIA'' = Some x1" "map_of f ''TP_ESCOLA'' = Some x2"
    "map_of f ''TP_LOCALIZACAO_ESC'' = Some x3" "map_of f ''Q001'' = Some x4"
    "map_of f ''Q002'' = Some x5" "map_of f ''Q006'' = Some x6" "map_of f ''Q025'' = Some x7"
  shows "\<exists>W. derivadas_frame f = Inr W \<and>
             (\<forall>n. n \<notin> set colunas_derivadas \<longrightarrow> map_of W n = map_of f n) \<and>
             set (columns W) = set (columns f) \<union> set colunas_derivadas \<and>
             (\<forall>dst src d xs. (dst, src, d) \<in> set derivacoes \<longrightarrow> map_of f src = Some xs \<longrightarrow>
                map_of W dst = Some (series_map_dict d xs))"
  using assms
  by (simp add: derivadas_frame_def mapear_frame_def bind_err_def getitem_def map_of_setitem
      columns_setitem colunas_derivadas_def derivacoes_def insert_commute)


section \<open>The frame before the income bucket\<close>

lemma limpar_frame_ok:
  assumes cols: "set colunas_lidas \<subseteq> set (columns f)"
  shows "\<exists>W pres notas.
           getitem f ''TP_PRESENCA_CH'' = Inr pres \<and> getitem f ''NU_NOTA_CH'' = Inr notas \<and>
           limpar_frame p f = Inr W \<and>
           set (columns W) = set (columns f) \<union> set colunas_derivadas \<and>
           (\<forall>n xs. map_of f n = Some xs \<longrightarrow> n \<notin> set colunas_derivadas \<longrightarrow>
              map_of W n =
                Some (if n \<in> set colunas_numericas
                      then map (to_numeric p)
                             (keep_rows (map (\<lambda>v. v \<noteq> NaN) (keep_rows (map (\<lambda>v. v = Num 1) pres) notas))
                                (keep_rows (map (\<lambda>v. v = Num 1) pres) xs))
                      else keep_rows (map (\<lambda>v. v \<noteq> NaN) (keep_rows (map (\<lambda>v. v = Num 1) pres) notas))
                             (keep_rows (map (\<lambda>v. v = Num 1) pres) xs))) \<and>
           (\<forall>dst src d xs. (dst, src, d) \<in> set derivacoes \<longrightarrow> map_of f src = Some xs \<longrightarrow>
              map_of W dst =
                Some (series_map_dict d
                       (keep_rows (map (\<lambda>v. v \<noteq> NaN) (keep_rows (map (\<lambda>v. v = Num 1) pres) notas))
                          (keep_rows (map (\<lambda>v. v = Num 1) pres) xs))))"
proof -
  have ex: "\<And>n. n \<in> set colunas_lidas \<Longrightarrow> \<exists>xs. map_of f n = Some xs"
    using cols by (auto simp: in_columns)
  obtain pres where pres: "map_of f ''TP_PRESENCA_CH'' = Some pres"
    using ex[of "''TP_PRESENCA_CH''"] by (auto simp: colunas_lidas_def)
  obtain notas where notas: "map_of f ''NU_NOTA_CH'' = Some notas"
    using ex[of "''NU_NOTA_CH''"] by (auto simp: colunas_lidas_def)
  obtain x1 where x1: "map_of f ''TP_FAIXA_ETARIA'' = Some x1"
    using ex[of "''TP_FAIXA_ETARIA''"] by (auto simp: colunas_lidas_def)
  obtain x2 where x2: "map_of f ''TP_ESCOLA'' = Some x2"
    using ex[of "''TP_ESCOLA''"] by (auto simp: colunas_lidas_def)
  obtain x3 where x3: "map_of f ''TP_LOCALIZACAO_ESC'' = Some x3"
    using ex[of "''TP_LOCALIZACAO_ESC''"] by (auto simp: colunas_lidas_def)
  obtain x4 where x4: "map_of f ''Q001'' = Some x4"
    using ex[of "''Q001''"] by (auto simp: colunas_lidas_def)
  obtain x5 where x5: "map_of f ''Q002'' = Some x5"
    using ex[of "''Q002''"] by (auto simp: colunas_lidas_def)
  obtain x6 where x6: "map_of f ''Q006'' = Some x6"
    using ex[of "''Q006''"] by (auto simp: colunas_lidas_def)
  obtain x7 where x7: "map_of f ''Q025'' = Some x7"
    using ex[of "''Q025''"] by (auto simp: colunas_lidas_def)
  define s1 where "s1 = map (\<lambda>v. v = Num 1) pres"
  define s2 where "s2 = map (\<lambda>v. v \<noteq> NaN) (keep_rows s1 notas)"
  define f2 where "f2 = select_rows s2 (select_rows s1 f)"
  define g where "g = converter_frame p colunas_numericas f2"
  have ff: "filtrar_frame f = Inr f2"
    using filtrar_frame_ok[OF pres notas] by (simp add: f2_def s1_def s2_def)
  have mg: "\<And>n. map_of g n =
      (if n \<in> set colunas_numericas
       then map_option (map (to_numeric p)) (map_option (keep_rows s2) (map_option (keep_rows s1) (map_of f n)))
       else map_option (keep_rows s2) (map_option (keep_rows s1) (map_of f n)))"
    by (simp add: g_def f2_def map_of_converter_frame map_of_select_rows)
  have nn: "''TP_FAIXA_ETARIA'' \<notin> set colunas_numericas" "''TP_ESCOLA'' \<notin> set colunas_numericas"
    "''TP_LOCALIZACAO_ESC'' \<notin> set colunas_numericas" "''Q001'' \<notin> set colunas_numericas"
    "''Q002'' \<notin> set colunas_numericas" "''Q006'' \<notin> set colunas_numericas"
    "''Q025'' \<notin> set colunas_numericas"
    by (simp_all add: colunas_numericas_def)
  from derivadas_frame_valores[of g "keep_rows s2 (keep_rows s1 x1)" "keep_rows s2 (keep_rows s1 x2)"
      "keep_rows s2 (keep_rows s1 x3)" "keep_rows s2 (keep_rows s1 x4)" "keep_rows s2 (keep_rows s1 x5)"
      "keep_rows s2 (keep_rows s1 x6)" "keep_rows s2 (keep_rows s1 x7)"]
  obtain W where W: "derivadas_frame g = Inr W"
      "\<forall>n. n \<notin> set colunas_derivadas \<longrightarrow> map_of W n = map_of g n"
      "set (columns W) = set (columns g) \<union> set colunas_derivadas"
      "\<forall>dst src d xs. (dst, src, d) \<in> set derivacoes \<longrightarrow> map_of g src = Some xs \<longrightarrow>
                map_of W dst = Some (series_map_dict d xs)"
    using x1 x2 x3 x4 x5 x6 x7 nn by (auto simp: mg)
  have lw: "limpar_frame p f = Inr W"
    using ff W(1) by (simp add: limpar_frame_def bind_err_def g_def)
  have cg: "set (columns g) = set (columns f)"
    by (simp add: g_def f2_def columns_converter_frame columns_select_rows)
  have dv: "\<forall>dst src d xs. (dst, src, d) \<in> set derivacoes \<longrightarrow> map_of f src = Some xs \<longrightarrow>
              map_of W dst = Some (series_map_dict d (keep_rows s2 (keep_rows s1 xs)))"
  proof (intro allI impI)
    fix dst src d xs
    assume m: "(dst, src, d) \<in> set derivacoes" and x: "map_of f src = Some xs"
    from m have "src \<notin> set colunas_numericas"
      by (auto simp: derivacoes_def colunas_numericas_def)
    with x have "map_of g src = Some (keep_rows s2 (keep_rows s1 xs))" by (simp add: mg)
    with W(4) m show "map_of W dst = Some (series_map_dict d (keep_rows s2 (keep_rows s1 xs)))"
      by blast
  qed
  show ?thesis
    using pres notas lw W(2,3) cg dv
    by (intro exI[of _ W] exI[of _ pres] exI[of _ notas])
       (simp add: getitem_Inr mg s1_def s2_def)
qed


section \<open>The claims\<close>

text \<open>
  Claim C10.  A household-income code that reads as the empty string gets the
  income index 0, the index of the valid lowest code A, and not the sentinel -1:
  the test \<open>x in 'ABCDEFGHIJKLMNOPQ'\<close> is substring containment, which the empty
  string passes, and \<open>index\<close> finds it at position 0.  The expression of
  line 374 gives 0 as well.
\<close>

theorem codigo_vazio_indice_zero:
  "astype_str float_str ver (Str '''') = Str '''' \<and>
   str_contains '''' letras_renda \<and>
   indice_faixa '''' = Inr 0 \<and>
   indice_renda '''' = Inr (Some 0) \<and>
   lambda_faixa (astype_str float_str ver (Str '''')) = Inr 0 \<and>
   lambda_renda (astype_str float_str ver (Str '''')) = Inr (Some 0) \<and>
   indice_faixa ''A'' = Inr 0 \<and>
   lambda_faixa (astype_str float_str ver (Str ''A'')) = Inr 0"
  by (simp add: lambda_faixa_def lambda_renda_def indice_faixa_def indice_renda_def
      str_contains_def str_index_def letras_renda_def letras_renda_espacadas_def)

text \<open>
  Claim C2 says that the income index sends A, B, ..., Q onto 0, 1, ..., 16 and
  everything else to -1.  The code looks the letter up in the string
  \<open>'A B C ... Q'\<close>, where the letters stand two apart: B gets 2, C gets 4 and
  Q gets 32, above the last bin edge 16; the empty code gets 0, and the code AB,
  a substring of the unspaced string only, raises ValueError.
\<close>

theorem indice_salta_de_dois_em_dois:
  "indice_faixa ''A'' = Inr 0 \<and> indice_faixa ''B'' = Inr 2 \<and> indice_faixa ''C'' = Inr 4 \<and>
   indice_faixa ''Q'' = Inr 32 \<and> indice_renda ''B'' = Inr (Some 2) \<and>
   indice_faixa '''' = Inr 0 \<and>
   indice_faixa ''AB'' = Inl (ValueError ''substring not found'')"
  by (simp add: indice_faixa_def indice_renda_def str_contains_def str_index_def
      letras_renda_def letras_renda_espacadas_def)

text \<open>
  Claim C3 says that the income bucket follows the breakpoints, with -1 and 0 in
  the first bucket.  The call of line 192 gives \<open>pd.cut\<close> six labels for the five
  intervals of its six edges, so it raises ValueError on every column of
  indices and no index gets a bucket; and the first interval, open on the left,
  does not hold -1.
\<close>

theorem faixa_renda_levanta:
  "pd_cut [- 1, 0, 1, 3, 4, 16] faixa_bins faixa_labels =
     Inl (ValueError ''Bin labels must be one fewer than the number of bin edges'') \<and>
   length faixa_labels = 6 \<and> length faixa_bins - 1 = 5 \<and>
   bin_label faixa_bins faixa_labels (- 1) = NaN"
  by (simp add: pd_cut_def faixa_bins_def faixa_labels_def bin_label_def)

text \<open>
  Claim C4 says that a batch with all its columns is processed to the end and
  that no anomaly of a single row aborts it.  On the batch \<open>lote_simples\<close>, which
  has every column and no anomaly, the call raises ValueError at \<open>pd.cut\<close>; on
  \<open>lote_AB\<close>, whose one anomaly is the income code AB, it raises the ValueError of
  \<open>str.index\<close>.  Both happen under either version of pandas.
\<close>

theorem lote_completo_levanta:
  "filter (\<lambda>n. n \<notin> set (columns lote_simples)) colunas_lidas = [] \<and>
   fst (preparar_dados parse_exemplo float_str_exemplo Pandas_2 0 [lote_simples]) =
     Inl (ValueError ''Bin labels must be one fewer than the number of bin edges'') \<and>
   fst (preparar_dados parse_exemplo float_str_exemplo Pandas_3 0 [lote_simples]) =
     Inl (ValueError ''Bin labels must be one fewer than the number of bin edges'') \<and>
   filter (\<lambda>n. n \<notin> set (columns lote_AB)) colunas_lidas = [] \<and>
   fst (preparar_dados parse_exemplo float_str_exemplo Pandas_2 0 [lote_AB]) =
     Inl (ValueError ''substring not found'') \<and>
   fst (preparar_dados parse_exemplo float_str_exemplo Pandas_3 0 [lote_AB]) =
     Inl (ValueError ''substring not found'')"
  by code_simp

text \<open>
  Claim C5 says that a missing column is the only error the function signals.
  A batch without the score column does raise KeyError; but the batch
  \<open>lote_exemplo\<close>, which has every column, gets a ValueError before pandas 3 and
  a TypeError (for the null income code of its last row) from pandas 3 on.
\<close>

theorem erro_que_nao_e_de_coluna:
  "fst (preparar_dados parse_exemplo float_str_exemplo Pandas_2 0 [lote_sem_nota]) =
     Inl (KeyError ''NU_NOTA_CH'') \<and>
   fst (preparar_dados parse_exemplo float_str_exemplo Pandas_3 0 [lote_sem_nota]) =
     Inl (KeyError ''NU_NOTA_CH'') \<and>
   filter (\<lambda>n. n \<notin> set (columns lote_exemplo)) colunas_lidas = [] \<and>
   fst (preparar_dados parse_exemplo float_str_exemplo Pandas_2 0 [lote_exemplo]) =
     Inl (ValueError ''Bin labels must be one fewer than the number of bin edges'') \<and>
   fst (preparar_dados parse_exemplo float_str_exemplo Pandas_3 0 [lote_exemplo]) =
     Inl (TypeError ''in <string> requires string as left operand, not float'')"
  by code_simp

text \<open>
  Claim C8, the scenario of five rows: the first present with score 550.0 and
  income code F, the second absent.  The claim expects a batch of four rows with
  index 5 and the bucket lower-middle for the first.  The call returns no batch:
  it raises ValueError at \<open>pd.cut\<close> (from pandas 3 on, TypeError at the null
  income code of the last row).  Before that, the frame of line 189 does have
  the four rows and the bracket of F for the first; the index of F is 10.
\<close>

theorem cenario_cinco_linhas:
  "getitem lote_exemplo ''TP_PRESENCA_CH'' = Inr [Num 1, Num 0, Num 1, Num 1, Num 1] \<and>
   fst (preparar_dados parse_exemplo float_str_exemplo Pandas_2 0 [lote_exemplo]) =
     Inl (ValueError ''Bin labels must be one fewer than the number of bin edges'') \<and>
   fst (preparar_dados parse_exemplo float_str_exemplo Pandas_3 0 [lote_exemplo]) =
     Inl (TypeError ''in <string> requires string as left operand, not float'') \<and>
   indice_faixa ''F'' = Inr 10 \<and>
   lambda_faixa (astype_str float_str_exemplo Pandas_2 (Str ''F'')) = Inr 10 \<and>
   lambda_faixa (astype_str float_str_exemplo Pandas_3 (Str ''F'')) = Inr 10 \<and>
   fst (limpar_e_derivar parse_exemplo 0 [lote_exemplo]) = Inr 3 \<and>
   getitem (snd (limpar_e_derivar parse_exemplo 0 [lote_exemplo]) ! 3) ''NU_NOTA_CH'' =
     Inr [Num 550, Num 610, Num 430, Num 720] \<and>
   getitem (snd (limpar_e_derivar parse_exemplo 0 [lote_exemplo]) ! 3) ''RENDA_FAMILIAR'' =
     Inr [Str ''R$ 5.648,01 a R$ 7.060,00'', Str ''Nenhuma renda'', Str ''Acima de R$ 21.180,01'', NaN]"
  by code_simp

text \<open>
  Claim C6.  The loop of lines 99-101 never raises, and for each of the five
  score columns that the frame has, it leaves in every row the coerced value of
  the raw cell: the number that a string is read as when it is one, null when
  it is none (a cell that is already a number or null stays as it is).
\<close>

theorem notas_convertidas:
  assumes "c < length st" and "col \<in> set colunas_numericas"
    and "getitem (st ! c) col = Inr xs"
  shows "fst (converter_numericas parse c colunas_numericas st) = Inr () \<and>
         (\<exists>ys. getitem (snd (converter_numericas parse c colunas_numericas st) ! c) col = Inr ys \<and>
               length ys = length xs \<and>
               (\<forall>i<length xs.
                  ys ! i = (case xs ! i of
                              Str s \<Rightarrow> (case parse s of None \<Rightarrow> NaN | Some r \<Rightarrow> Num r)
                            | v \<Rightarrow> v)))"
proof -
  have tn: "\<And>v. to_numeric parse v =
      (case v of Str s \<Rightarrow> (case parse s of None \<Rightarrow> NaN | Some r \<Rightarrow> Num r) | v \<Rightarrow> v)"
    by (simp split: cell.splits)
  from assms(3) have m: "map_of (st ! c) col = Some xs" by (simp add: getitem_Inr)
  have g: "getitem (snd (converter_numericas parse c colunas_numericas st) ! c) col =
             Inr (map (to_numeric parse) xs)"
    using assms(1,2) m by (simp add: converter_run getitem_Inr map_of_converter_frame)
  have "\<forall>i<length xs. map (to_numeric parse) xs ! i =
          (case xs ! i of Str s \<Rightarrow> (case parse s of None \<Rightarrow> NaN | Some r \<Rightarrow> Num r) | v \<Rightarrow> v)"
    using tn by simp
  with g assms(1) show ?thesis
    by (intro conjI exI[of _ "map (to_numeric parse) xs"]) (simp_all add: converter_run)
qed

theorem notas_convertidas_witness:
  "(0::nat) < length [lote_exemplo] \<and> ''NU_NOTA_CN'' \<in> set colunas_numericas \<and>
   getitem ([lote_exemplo] ! 0) ''NU_NOTA_CN'' = Inr [Num 480, NaN, Str ''450.5'', Str ''abc'', Num 500] \<and>
   parse_exemplo ''450.5'' = Some 450.5 \<and> parse_exemplo ''abc'' = None \<and>
   fst (converter_numericas parse_exemplo 0 colunas_numericas [lote_exemplo]) = Inr () \<and>
   getitem (snd (converter_numericas parse_exemplo 0 colunas_numericas [lote_exemplo]) ! 0) ''NU_NOTA_CN'' =
     Inr [Num 480, NaN, Num 450.5, NaN, Num 500]"
proof -
  let ?xs = "[Num 480, NaN, Str ''450.5'', Str ''abc'', Num 500]"
  have h1: "(0::nat) < length [lote_exemplo]" by simp
  have h2: "''NU_NOTA_CN'' \<in> set colunas_numericas" by (simp add: colunas_numericas_def)
  have h3: "getitem ([lote_exemplo] ! 0) ''NU_NOTA_CN'' = Inr ?xs"
    by (simp add: getitem_def lote_exemplo_def)
  have p: "parse_exemplo ''450.5'' = Some 450.5" "parse_exemplo ''abc'' = None"
    by (simp_all add: parse_exemplo_def)
  from notas_convertidas[OF h1 h2 h3, of parse_exemplo] obtain ys where
    f: "fst (converter_numericas parse_exemplo 0 colunas_numericas [lote_exemplo]) = Inr ()" and
    g: "getitem (snd (converter_numericas parse_exemplo 0 colunas_numericas [lote_exemplo]) ! 0) ''NU_NOTA_CN'' = Inr ys" and
    l: "length ys = length ?xs" and
    a: "\<forall>i<length ?xs. ys ! i = (case ?xs ! i of
          Str s \<Rightarrow> (case parse_exemplo s of None \<Rightarrow> NaN | Some r \<Rightarrow> Num r) | v \<Rightarrow> v)"
    by blast
  have "ys = [Num 480, NaN, Num 450.5, NaN, Num 500]"
  proof (rule nth_equalityI)
    show "length ys = length [Num 480, NaN, Num 450.5, NaN, Num 500]" using l by simp
  next
    fix i assume "i < length ys"
    with l have "i < 5" by simp
    then have "i = 0 \<or> i = 1 \<or> i = 2 \<or> i = 3 \<or> i = 4" by arith
    with a p show "ys ! i = [Num 480, NaN, Num 450.5, NaN, Num 500] ! i"
      by (auto simp: nth_Cons')
  qed
  with f g h1 h2 h3 p show ?thesis by simp
qed


lemma primeira_em_falta:
  "\<not> set colunas_lidas \<subseteq> set (columns f) \<Longrightarrow>
     \<exists>n rest. filter (\<lambda>n. n \<notin> set (columns f)) colunas_lidas = n # rest"
proof -
  assume "\<not> set colunas_lidas \<subseteq> set (columns f)"
  then have "filter (\<lambda>n. n \<notin> set (columns f)) colunas_lidas \<noteq> []"
    by (auto simp: filter_empty_conv)
  then show ?thesis by (cases "filter (\<lambda>n. n \<notin> set (columns f)) colunas_lidas") auto
qed




text \<open>
  Claim C7 says that the output batch keeps every original column unchanged and
  that the input is not mutated.  The score columns are overwritten by their
  coerced values: on \<open>lote_abc\<close> the frame that line 189 leaves has null where
  the input has the string abc.  A column of the input that bears the name of a
  derived column is overwritten as well: on \<open>lote_com_rotulo\<close> the column
  RENDA_FAMILIAR of the input is replaced by the label of the income code.  And
  the call returns no batch.
\<close>

theorem colunas_de_nota_sao_alteradas:
  "getitem lote_abc ''NU_NOTA_CN'' = Inr [Str ''abc''] \<and>
   fst (limpar_e_derivar parse_exemplo 0 [lote_abc]) = Inr 3 \<and>
   getitem (snd (limpar_e_derivar parse_exemplo 0 [lote_abc]) ! 3) ''NU_NOTA_CN'' = Inr [NaN] \<and>
   fst (preparar_dados parse_exemplo float_str_exemplo Pandas_2 0 [lote_abc]) =
     Inl (ValueError ''Bin labels must be one fewer than the number of bin edges'') \<and>
   fst (preparar_dados parse_exemplo float_str_exemplo Pandas_3 0 [lote_abc]) =
     Inl (ValueError ''Bin labels must be one fewer than the number of bin edges'') \<and>
   getitem lote_com_rotulo ''RENDA_FAMILIAR'' = Inr [Str ''alta''] \<and>
   fst (limpar_e_derivar parse_exemplo 0 [lote_com_rotulo]) = Inr 3 \<and>
   getitem (snd (limpar_e_derivar parse_exemplo 0 [lote_com_rotulo]) ! 3) ''RENDA_FAMILIAR'' =
     Inr [Str ''R$ 1.412,01 a R$ 2.824,00'']"
  by code_simp

text \<open>
  Claim C7, amended.  \<open>preparar_dados\<close> never changes its input batch, nor any
  other object that existed before the call, whether it raises or not.  When
  the batch has every column the function reads, the frame that lines 88-189
  build has the columns of the input and the seven derived columns.  A column
  of the input that does not bear the name of a derived column holds the cells
  of the retained rows, at most as many as the input has: unchanged, except in
  the five score columns, which hold the coerced values.  Each of the seven
  derived columns, whether the input had a column of that name or not, holds
  the labels that its table gives for the retained rows of the column it is
  derived from.
\<close>

theorem entrada_intacta:
  assumes df: "df < length st"
  shows "take (length st) (snd (preparar_dados parse float_str ver df st)) = st \<and>
         snd (preparar_dados parse float_str ver df st) ! df = st ! df \<and>
         (set colunas_lidas \<subseteq> set (columns (st ! df)) \<longrightarrow>
            (\<exists>c st1 s1 s2.
               limpar_e_derivar parse df st = (Inr c, st1) \<and>
               set (columns (st1 ! c)) = set (columns (st ! df)) \<union> set colunas_derivadas \<and>
               set colunas_derivadas = fst ` set derivacoes \<and>
               (\<forall>n xs. getitem (st ! df) n = Inr xs \<longrightarrow> n \<notin> set colunas_derivadas \<longrightarrow>
                  length (keep_rows s2 (keep_rows s1 xs)) \<le> length xs \<and>
                  getitem (st1 ! c) n =
                    Inr (if n \<in> set colunas_numericas
                         then map (to_numeric parse) (keep_rows s2 (keep_rows s1 xs))
                         else keep_rows s2 (keep_rows s1 xs))) \<and>
               (\<forall>dst src d xs. (dst, src, d) \<in> set derivacoes \<longrightarrow>
                  getitem (st ! df) src = Inr xs \<longrightarrow>
                  getitem (st1 ! c) dst =
                    Inr (series_map_dict d (keep_rows s2 (keep_rows s1 xs))))))"
proof (intro conjI impI)
  show tk: "take (length st) (snd (preparar_dados parse float_str ver df st)) = st"
    using preparar_ref[OF df, of parse float_str ver] by simp
  have "take (length st) (snd (preparar_dados parse float_str ver df st)) ! df =
        snd (preparar_dados parse float_str ver df st) ! df"
    using df by (rule nth_take)
  with tk show "snd (preparar_dados parse float_str ver df st) ! df = st ! df" by simp
next
  assume cols: "set colunas_lidas \<subseteq> set (columns (st ! df))"
  from limpar_frame_ok[OF cols, of parse] obtain W pres notas where
    W: "limpar_frame parse (st ! df) = Inr W" and
    cw: "set (columns W) = set (columns (st ! df)) \<union> set colunas_derivadas" and
    vals: "\<forall>n xs. map_of (st ! df) n = Some xs \<longrightarrow> n \<notin> set colunas_derivadas \<longrightarrow>
              map_of W n =
                Some (if n \<in> set colunas_numericas
                      then map (to_numeric parse)
                             (keep_rows (map (\<lambda>v. v \<noteq> NaN) (keep_rows (map (\<lambda>v. v = Num 1) pres) notas))
                                (keep_rows (map (\<lambda>v. v = Num 1) pres) xs))
                      else keep_rows (map (\<lambda>v. v \<noteq> NaN) (keep_rows (map (\<lambda>v. v = Num 1) pres) notas))
                             (keep_rows (map (\<lambda>v. v = Num 1) pres) xs))" and
    ders: "\<forall>dst src d xs. (dst, src, d) \<in> set derivacoes \<longrightarrow> map_of (st ! df) src = Some xs \<longrightarrow>
              map_of W dst =
                Some (series_map_dict d
                       (keep_rows (map (\<lambda>v. v \<noteq> NaN) (keep_rows (map (\<lambda>v. v = Num 1) pres) notas))
                          (keep_rows (map (\<lambda>v. v = Num 1) pres) xs)))"
    by blast
  define s1 where "s1 = map (\<lambda>v. v = Num 1) pres"
  define s2 where "s2 = map (\<lambda>v. v \<noteq> NaN) (keep_rows s1 notas)"
  define c where "c = length st + 2"
  define st1 where "st1 = snd (limpar_e_derivar parse df st)"
  from limpar_ref[OF df, of parse] W have
    l: "limpar_e_derivar parse df st = (Inr c, st1)" and lw: "st1 ! c = W"
    by (simp_all add: c_def st1_def prod_eq_iff)
  have len: "\<And>xs. length (keep_rows s2 (keep_rows s1 xs)) \<le> length xs"
    using length_keep_rows length_keep_rows by (rule order_trans)
  have nm: "set colunas_derivadas = fst ` set derivacoes"
    by (simp add: colunas_derivadas_def derivacoes_def)
  have v: "\<forall>n xs. getitem (st ! df) n = Inr xs \<longrightarrow> n \<notin> set colunas_derivadas \<longrightarrow>
             length (keep_rows s2 (keep_rows s1 xs)) \<le> length xs \<and>
             getitem (st1 ! c) n =
               Inr (if n \<in> set colunas_numericas
                    then map (to_numeric parse) (keep_rows s2 (keep_rows s1 xs))
                    else keep_rows s2 (keep_rows s1 xs))"
  proof (intro allI impI conjI)
    fix n xs
    assume g: "getitem (st ! df) n = Inr xs" and n: "n \<notin> set colunas_derivadas"
    show "length (keep_rows s2 (keep_rows s1 xs)) \<le> length xs" by (rule len)
    from g have "map_of (st ! df) n = Some xs" by (simp add: getitem_Inr)
    with vals n show "getitem (st1 ! c) n =
               Inr (if n \<in> set colunas_numericas
                    then map (to_numeric parse) (keep_rows s2 (keep_rows s1 xs))
                    else keep_rows s2 (keep_rows s1 xs))"
      by (simp add: lw getitem_Inr s1_def s2_def)
  qed
  have d: "\<forall>dst src d xs. (dst, src, d) \<in> set derivacoes \<longrightarrow>
             getitem (st ! df) src = Inr xs \<longrightarrow>
             getitem (st1 ! c) dst = Inr (series_map_dict d (keep_rows s2 (keep_rows s1 xs)))"
  proof (intro allI impI)
    fix dst src d xs
    assume m: "(dst, src, d) \<in> set derivacoes" and g: "getitem (st ! df) src = Inr xs"
    from g have "map_of (st ! df) src = Some xs" by (simp add: getitem_Inr)
    with ders m have "map_of W dst = Some (series_map_dict d (keep_rows s2 (keep_rows s1 xs)))"
      unfolding s1_def s2_def by blast
    then show "getitem (st1 ! c) dst = Inr (series_map_dict d (keep_rows s2 (keep_rows s1 xs)))"
      by (simp add: lw getitem_Inr)
  qed
  show "\<exists>c st1 s1 s2.
          limpar_e_derivar parse df st = (Inr c, st1) \<and>
          set (columns (st1 ! c)) = set (columns (st ! df)) \<union> set colunas_derivadas \<and>
          set colunas_derivadas = fst ` set derivacoes \<and>
          (\<forall>n xs. getitem (st ! df) n = Inr xs \<longrightarrow> n \<notin> set colunas_derivadas \<longrightarrow>
             length (keep_rows s2 (keep_rows s1 xs)) \<le> length xs \<and>
             getitem (st1 ! c) n =
               Inr (if n \<in> set colunas_numericas
                    then map (to_numeric parse) (keep_rows s2 (keep_rows s1 xs))
                    else keep_rows s2 (keep_rows s1 xs))) \<and>
          (\<forall>dst src d xs. (dst, src, d) \<in> set derivacoes \<longrightarrow>
             getitem (st ! df) src = Inr xs \<longrightarrow>
             getitem (st1 ! c) dst =
               Inr (series_map_dict d (keep_rows s2 (keep_rows s1 xs))))"
    using l cw nm v d unfolding lw[symmetric]
    by (intro exI[of _ c] exI[of _ st1] exI[of _ s1] exI[of _ s2]) simp
qed

theorem entrada_intacta_witness:
  "(0::nat) < length [lote_exemplo] \<and>
   set colunas_lidas \<subseteq> set (columns ([lote_exemplo] ! 0)) \<and>
   snd (preparar_dados parse_exemplo float_str_exemplo Pandas_2 0 [lote_exemplo]) ! 0 = lote_exemplo \<and>
   (\<exists>c st1 s1 s2.
      limpar_e_derivar parse_exemplo 0 [lote_exemplo] = (Inr c, st1) \<and>
      set (columns (st1 ! c)) = set (columns ([lote_exemplo] ! 0)) \<union> set colunas_derivadas \<and>
      set colunas_derivadas = fst ` set derivacoes \<and>
      (\<forall>n xs. getitem ([lote_exemplo] ! 0) n = Inr xs \<longrightarrow> n \<notin> set colunas_derivadas \<longrightarrow>
         length (keep_rows s2 (keep_rows s1 xs)) \<le> length xs \<and>
         getitem (st1 ! c) n =
           Inr (if n \<in> set colunas_numericas
                then map (to_numeric parse_exemplo) (keep_rows s2 (keep_rows s1 xs))
                else keep_rows s2 (keep_rows s1 xs))) \<and>
      (\<forall>dst src d xs. (dst, src, d) \<in> set derivacoes \<longrightarrow>
         getitem ([lote_exemplo] ! 0) src = Inr xs \<longrightarrow>
         getitem (st1 ! c) dst =
           Inr (series_map_dict d (keep_rows s2 (keep_rows s1 xs)))))"
proof -
  have h1: "(0::nat) < length [lote_exemplo]" by simp
  have h2: "set colunas_lidas \<subseteq> set (columns ([lote_exemplo] ! 0))"
    by (simp add: colunas_lidas_def columns_def lote_exemplo_def)
  note t = entrada_intacta[OF h1, of parse_exemplo float_str_exemplo Pandas_2]
  from t have a: "snd (preparar_dados parse_exemplo float_str_exemplo Pandas_2 0 [lote_exemplo]) ! 0 = lote_exemplo"
    by simp
  from t[THEN conjunct2, THEN conjunct2, THEN mp, OF h2] h1 h2 a show ?thesis
    by (intro conjI)
qed

text \<open>
  Claim C1 says that every row of the returned batch has presence 1 and a score
  that is not null.  The null scores are dropped at line 94, before the coercion
  of line 101, which turns a score that is no number into null: on \<open>lote_abc\<close>
  the frame that line 189 leaves has a null score; and the call returns no
  batch.
\<close>

theorem nota_nula_depois_da_conversao:
  "getitem lote_abc ''TP_PRESENCA_CH'' = Inr [Num 1] \<and>
   getitem lote_abc ''NU_NOTA_CH'' = Inr [Str ''abc''] \<and>
   parse_exemplo ''abc'' = None \<and>
   fst (limpar_e_derivar parse_exemplo 0 [lote_abc]) = Inr 3 \<and>
   getitem (snd (limpar_e_derivar parse_exemplo 0 [lote_abc]) ! 3) ''NU_NOTA_CH'' = Inr [NaN] \<and>
   fst (preparar_dados parse_exemplo float_str_exemplo Pandas_2 0 [lote_abc]) =
     Inl (ValueError ''Bin labels must be one fewer than the number of bin edges'') \<and>
   fst (preparar_dados parse_exemplo float_str_exemplo Pandas_3 0 [lote_abc]) =
     Inl (ValueError ''Bin labels must be one fewer than the number of bin edges'')"
  by code_simp

text \<open>
  Claim C1, amended.  For every batch with the presence and the score column,
  lines 88-94 succeed, and in the frame they leave every row has presence 1 and
  a raw score that is not null; the coercion and the derived columns are
  computed after that, on this frame.  When the batch has every column the
  function reads, the enriched frame that lines 88-189 build has presence 1 in
  every row, and its score column holds the coerced raw scores of the rows with
  presence 1 and a raw score that is not null: the score of a row is null there
  only where the raw score is a string that is no number, so it is not null
  wherever the raw score is a number or a string that reads as one.
\<close>

theorem presentes_com_nota:
  assumes df: "df < length st"
    and p: "''TP_PRESENCA_CH'' \<in> set (columns (st ! df))"
    and n: "''NU_NOTA_CH'' \<in> set (columns (st ! df))"
  shows "(\<exists>c st1 pres notas.
            filtrar_presentes df st = (Inr c, st1) \<and>
            getitem (st1 ! c) ''TP_PRESENCA_CH'' = Inr pres \<and>
            getitem (st1 ! c) ''NU_NOTA_CH'' = Inr notas \<and>
            (\<forall>v\<in>set pres. v = Num 1) \<and> (\<forall>v\<in>set notas. v \<noteq> NaN) \<and>
            limpar_e_derivar parse df st =
              seq (converter_numericas parse c colunas_numericas)
                (\<lambda>_. seq (criar_derivadas c) (\<lambda>_. ret c)) st1) \<and>
         (set colunas_lidas \<subseteq> set (columns (st ! df)) \<longrightarrow>
            (\<exists>c st1 pres0 notas0 pres notas.
               getitem (st ! df) ''TP_PRESENCA_CH'' = Inr pres0 \<and>
               getitem (st ! df) ''NU_NOTA_CH'' = Inr notas0 \<and>
               limpar_e_derivar parse df st = (Inr c, st1) \<and>
               getitem (st1 ! c) ''TP_PRESENCA_CH'' = Inr pres \<and>
               (\<forall>v\<in>set pres. v = Num 1) \<and>
               getitem (st1 ! c) ''NU_NOTA_CH'' = Inr notas \<and>
               notas = map (to_numeric parse)
                         (filter (\<lambda>v. v \<noteq> NaN) (keep_rows (map (\<lambda>v. v = Num 1) pres0) notas0)) \<and>
               (\<forall>i<length notas.
                  notas ! i = NaN \<longrightarrow>
                  (\<exists>s. filter (\<lambda>v. v \<noteq> NaN) (keep_rows (map (\<lambda>v. v = Num 1) pres0) notas0) ! i = Str s \<and>
                       parse s = None))))"
proof (intro conjI impI)
  from p obtain pres where pres: "map_of (st ! df) ''TP_PRESENCA_CH'' = Some pres"
    by (auto simp: in_columns)
  from n obtain notas where notas: "map_of (st ! df) ''NU_NOTA_CH'' = Some notas"
    by (auto simp: in_columns)
  define s1 where "s1 = map (\<lambda>v. v = Num 1) pres"
  define s2 where "s2 = map (\<lambda>v. v \<noteq> NaN) (keep_rows s1 notas)"
  define f1 where "f1 = select_rows s1 (st ! df)"
  define f2 where "f2 = select_rows s2 f1"
  define c where "c = length st + 2"
  define st1 where "st1 = st @ [st ! df, f1, f2]"
  have d: "dropna f1 ''NU_NOTA_CH'' = Inr f2"
    using notas by (simp add: dropna_def f1_def f2_def s2_def map_of_select_rows)
  have run: "filtrar_presentes df st = (Inr c, st1)"
    using pres d by (simp add: filtrar_run getitem_def f1_def s1_def c_def st1_def)
  have nth: "st1 ! c = f2" by (simp add: st1_def c_def nth_append)
  have gp: "getitem f2 ''TP_PRESENCA_CH'' = Inr (keep_rows s2 (keep_rows s1 pres))"
    using pres by (simp add: getitem_Inr f2_def f1_def map_of_select_rows)
  have gn: "getitem f2 ''NU_NOTA_CH'' = Inr (keep_rows s2 (keep_rows s1 notas))"
    using notas by (simp add: getitem_Inr f2_def f1_def map_of_select_rows)
  have "keep_rows s1 pres = filter (\<lambda>v. v = Num 1) pres"
    by (simp add: s1_def keep_rows_map_filter)
  with set_keep_rows[of s2 "keep_rows s1 pres"]
  have ap: "\<forall>v\<in>set (keep_rows s2 (keep_rows s1 pres)). v = Num 1" by auto
  have "keep_rows s2 (keep_rows s1 notas) = filter (\<lambda>v. v \<noteq> NaN) (keep_rows s1 notas)"
    by (simp add: s2_def keep_rows_map_filter)
  then have an: "\<forall>v\<in>set (keep_rows s2 (keep_rows s1 notas)). v \<noteq> NaN" by simp
  have rest: "limpar_e_derivar parse df st =
                seq (converter_numericas parse c colunas_numericas)
                  (\<lambda>_. seq (criar_derivadas c) (\<lambda>_. ret c)) st1"
    using run by (simp add: limpar_e_derivar_def seq_def[of "filtrar_presentes df"])
  show "\<exists>c st1 pres notas.
            filtrar_presentes df st = (Inr c, st1) \<and>
            getitem (st1 ! c) ''TP_PRESENCA_CH'' = Inr pres \<and>
            getitem (st1 ! c) ''NU_NOTA_CH'' = Inr notas \<and>
            (\<forall>v\<in>set pres. v = Num 1) \<and> (\<forall>v\<in>set notas. v \<noteq> NaN) \<and>
            limpar_e_derivar parse df st =
              seq (converter_numericas parse c colunas_numericas)
                (\<lambda>_. seq (criar_derivadas c) (\<lambda>_. ret c)) st1"
    using run gp gn ap an rest unfolding nth[symmetric]
    by (intro exI[of _ c] exI[of _ st1] exI[of _ "keep_rows s2 (keep_rows s1 pres)"]
        exI[of _ "keep_rows s2 (keep_rows s1 notas)"]) simp
next
  assume cols: "set colunas_lidas \<subseteq> set (columns (st ! df))"
  from limpar_frame_ok[OF cols, of parse] obtain W pres0 notas0 where
    gp0: "getitem (st ! df) ''TP_PRESENCA_CH'' = Inr pres0" and
    gn0: "getitem (st ! df) ''NU_NOTA_CH'' = Inr notas0" and
    W: "limpar_frame parse (st ! df) = Inr W" and
    vals: "\<forall>n xs. map_of (st ! df) n = Some xs \<longrightarrow> n \<notin> set colunas_derivadas \<longrightarrow>
              map_of W n =
                Some (if n \<in> set colunas_numericas
                      then map (to_numeric parse)
                             (keep_rows (map (\<lambda>v. v \<noteq> NaN) (keep_rows (map (\<lambda>v. v = Num 1) pres0) notas0))
                                (keep_rows (map (\<lambda>v. v = Num 1) pres0) xs))
                      else keep_rows (map (\<lambda>v. v \<noteq> NaN) (keep_rows (map (\<lambda>v. v = Num 1) pres0) notas0))
                             (keep_rows (map (\<lambda>v. v = Num 1) pres0) xs))"
    by blast
  define s1 where "s1 = map (\<lambda>v. v = Num 1) pres0"
  define s2 where "s2 = map (\<lambda>v. v \<noteq> NaN) (keep_rows s1 notas0)"
  define raw where "raw = filter (\<lambda>v. v \<noteq> NaN) (keep_rows s1 notas0)"
  define c where "c = length st + 2"
  define st1 where "st1 = snd (limpar_e_derivar parse df st)"
  from limpar_ref[OF df, of parse] W have
    l: "limpar_e_derivar parse df st = (Inr c, st1)" and lw: "st1 ! c = W"
    by (simp_all add: c_def st1_def prod_eq_iff)
  from gp0 vals have wp: "map_of W ''TP_PRESENCA_CH'' = Some (keep_rows s2 (keep_rows s1 pres0))"
    by (simp add: getitem_Inr colunas_derivadas_def colunas_numericas_def s1_def s2_def)
  from gn0 vals have "map_of W ''NU_NOTA_CH'' =
      Some (map (to_numeric parse) (keep_rows s2 (keep_rows s1 notas0)))"
    by (simp add: getitem_Inr colunas_derivadas_def colunas_numericas_def s1_def s2_def)
  moreover have "keep_rows s2 (keep_rows s1 notas0) = raw"
    by (simp add: s2_def raw_def keep_rows_map_filter)
  ultimately have wn: "map_of W ''NU_NOTA_CH'' = Some (map (to_numeric parse) raw)" by simp
  have "keep_rows s1 pres0 = filter (\<lambda>v. v = Num 1) pres0"
    by (simp add: s1_def keep_rows_map_filter)
  with set_keep_rows[of s2 "keep_rows s1 pres0"]
  have ap: "\<forall>v\<in>set (keep_rows s2 (keep_rows s1 pres0)). v = Num 1" by auto
  have nul: "\<forall>i<length (map (to_numeric parse) raw).
               map (to_numeric parse) raw ! i = NaN \<longrightarrow> (\<exists>s. raw ! i = Str s \<and> parse s = None)"
  proof (intro allI impI)
    fix i
    assume i: "i < length (map (to_numeric parse) raw)"
      and z: "map (to_numeric parse) raw ! i = NaN"
    from i have ir: "i < length raw" by simp
    then have "raw ! i \<in> set raw" by (rule nth_mem)
    then have nn: "raw ! i \<noteq> NaN" by (simp add: raw_def)
    from z ir have "to_numeric parse (raw ! i) = NaN" by simp
    with nn show "\<exists>s. raw ! i = Str s \<and> parse s = None"
      by (cases "raw ! i") (auto split: option.splits)
  qed
  show "\<exists>c st1 pres0 notas0 pres notas.
          getitem (st ! df) ''TP_PRESENCA_CH'' = Inr pres0 \<and>
          getitem (st ! df) ''NU_NOTA_CH'' = Inr notas0 \<and>
          limpar_e_derivar parse df st = (Inr c, st1) \<and>
          getitem (st1 ! c) ''TP_PRESENCA_CH'' = Inr pres \<and>
          (\<forall>v\<in>set pres. v = Num 1) \<and>
          getitem (st1 ! c) ''NU_NOTA_CH'' = Inr notas \<and>
          notas = map (to_numeric parse)
                    (filter (\<lambda>v. v \<noteq> NaN) (keep_rows (map (\<lambda>v. v = Num 1) pres0) notas0)) \<and>
          (\<forall>i<length notas.
             notas ! i = NaN \<longrightarrow>
             (\<exists>s. filter (\<lambda>v. v \<noteq> NaN) (keep_rows (map (\<lambda>v. v = Num 1) pres0) notas0) ! i = Str s \<and>
                  parse s = None))"
  proof (intro exI conjI)
    show "getitem (st ! df) ''TP_PRESENCA_CH'' = Inr pres0" by (rule gp0)
    show "getitem (st ! df) ''NU_NOTA_CH'' = Inr notas0" by (rule gn0)
    show "limpar_e_derivar parse df st = (Inr c, st1)" by (rule l)
    show "getitem (st1 ! c) ''TP_PRESENCA_CH'' = Inr (keep_rows s2 (keep_rows s1 pres0))"
      using wp by (simp add: lw getitem_Inr)
    show "\<forall>v\<in>set (keep_rows s2 (keep_rows s1 pres0)). v = Num 1" by (rule ap)
    show "getitem (st1 ! c) ''NU_NOTA_CH'' = Inr (map (to_numeric parse) raw)"
      using wn by (simp add: lw getitem_Inr)
    show "map (to_numeric parse) raw =
            map (to_numeric parse)
              (filter (\<lambda>v. v \<noteq> NaN) (keep_rows (map (\<lambda>v. v = Num 1) pres0) notas0))"
      by (simp add: raw_def s1_def)
    show "\<forall>i<length (map (to_numeric parse) raw).
             map (to_numeric parse) raw ! i = NaN \<longrightarrow>
             (\<exists>s. filter (\<lambda>v. v \<noteq> NaN) (keep_rows (map (\<lambda>v. v = Num 1) pres0) notas0) ! i = Str s \<and>
                  parse s = None)"
      using nul unfolding raw_def s1_def .
  qed
qed

theorem presentes_com_nota_witness:
  "(0::nat) < length [lote_exemplo] \<and>
   ''TP_PRESENCA_CH'' \<in> set (columns ([lote_exemplo] ! 0)) \<and>
   ''NU_NOTA_CH'' \<in> set (columns ([lote_exemplo] ! 0)) \<and>
   set colunas_lidas \<subseteq> set (columns ([lote_exemplo] ! 0)) \<and>
   (\<exists>c st1 pres notas.
      filtrar_presentes 0 [lote_exemplo] = (Inr c, st1) \<and>
      getitem (st1 ! c) ''TP_PRESENCA_CH'' = Inr pres \<and>
      getitem (st1 ! c) ''NU_NOTA_CH'' = Inr notas \<and>
      (\<forall>v\<in>set pres. v = Num 1) \<and> (\<forall>v\<in>set notas. v \<noteq> NaN) \<and>
      limpar_e_derivar parse_exemplo 0 [lote_exemplo] =
        seq (converter_numericas parse_exemplo c colunas_numericas)
          (\<lambda>_. seq (criar_derivadas c) (\<lambda>_. ret c)) st1) \<and>
   (\<exists>c st1 pres0 notas0 pres notas.
      getitem ([lote_exemplo] ! 0) ''TP_PRESENCA_CH'' = Inr pres0 \<and>
      getitem ([lote_exemplo] ! 0) ''NU_NOTA_CH'' = Inr notas0 \<and>
      limpar_e_derivar parse_exemplo 0 [lote_exemplo] = (Inr c, st1) \<and>
      getitem (st1 ! c) ''TP_PRESENCA_CH'' = Inr pres \<and>
      (\<forall>v\<in>set pres. v = Num 1) \<and>
      getitem (st1 ! c) ''NU_NOTA_CH'' = Inr notas \<and>
      notas = map (to_numeric parse_exemplo)
                (filter (\<lambda>v. v \<noteq> NaN) (keep_rows (map (\<lambda>v. v = Num 1) pres0) notas0)) \<and>
      (\<forall>i<length notas.
         notas ! i = NaN \<longrightarrow>
         (\<exists>s. filter (\<lambda>v. v \<noteq> NaN) (keep_rows (map (\<lambda>v. v = Num 1) pres0) notas0) ! i = Str s \<and>
              parse_exemplo s = None))) \<and>
   getitem (snd (filtrar_presentes 0 [lote_exemplo]) ! 3) ''TP_PRESENCA_CH'' =
     Inr [Num 1, Num 1, Num 1, Num 1] \<and>
   getitem (snd (filtrar_presentes 0 [lote_exemplo]) ! 3) ''NU_NOTA_CH'' =
     Inr [Num 550, Num 610, Num 430, Num 720] \<and>
   getitem (snd (limpar_e_derivar parse_exemplo 0 [lote_exemplo]) ! 3) ''TP_PRESENCA_CH'' =
     Inr [Num 1, Num 1, Num 1, Num 1] \<and>
   getitem (snd (limpar_e_derivar parse_exemplo 0 [lote_exemplo]) ! 3) ''NU_NOTA_CH'' =
     Inr [Num 550, Num 610, Num 430, Num 720]"
proof -
  have h1: "(0::nat) < length [lote_exemplo]" by simp
  have h2: "''TP_PRESENCA_CH'' \<in> set (columns ([lote_exemplo] ! 0))"
    by (simp add: columns_def lote_exemplo_def)
  have h3: "''NU_NOTA_CH'' \<in> set (columns ([lote_exemplo] ! 0))"
    by (simp add: columns_def lote_exemplo_def)
  have h4: "set colunas_lidas \<subseteq> set (columns ([lote_exemplo] ! 0))"
    by (simp add: colunas_lidas_def columns_def lote_exemplo_def)
  have e: "getitem (snd (filtrar_presentes 0 [lote_exemplo]) ! 3) ''TP_PRESENCA_CH'' =
             Inr [Num 1, Num 1, Num 1, Num 1] \<and>
           getitem (snd (filtrar_presentes 0 [lote_exemplo]) ! 3) ''NU_NOTA_CH'' =
             Inr [Num 550, Num 610, Num 430, Num 720] \<and>
           getitem (snd (limpar_e_derivar parse_exemplo 0 [lote_exemplo]) ! 3) ''TP_PRESENCA_CH'' =
             Inr [Num 1, Num 1, Num 1, Num 1] \<and>
           getitem (snd (limpar_e_derivar parse_exemplo 0 [lote_exemplo]) ! 3) ''NU_NOTA_CH'' =
             Inr [Num 550, Num 610, Num 430, Num 720]"
    by code_simp
  note t = presentes_com_nota[OF h1 h2 h3, of parse_exemplo]
  note a1 = t[THEN conjunct1]
  note a2 = t[THEN conjunct2, THEN mp, OF h4]
  note e1 = e[THEN conjunct1]
  note e2 = e[THEN conjunct2, THEN conjunct1]
  note e3 = e[THEN conjunct2, THEN conjunct2, THEN conjunct1]
  note e4 = e[THEN conjunct2, THEN conjunct2, THEN conjunct2]
  show ?thesis
    by (rule conjI h1 h2 h3 h4 a1 a2 e1 e2 e3 e4)+
qed

end
